theory Spec2Isabelle
  imports Complex_Main
begin

section \<open>Strings\<close>

text \<open>
  A JavaScript string is modelled as a \<^typ>\<open>string\<close>, the list of its (UTF-8) bytes.
  Every pattern of the source is ASCII, so a test for an ASCII character or an ASCII
  substring gives the same answer on the bytes as on the UTF-16 code units. Strings are
  taken to be well formed (no lone surrogate).
\<close>

definition startsWith :: "string \<Rightarrow> string \<Rightarrow> bool" where
  "startsWith s p = (take (length p) s = p)"

definition endsWith :: "string \<Rightarrow> string \<Rightarrow> bool" where
  "endsWith s p = (length p \<le> length s \<and> drop (length s - length p) s = p)"

text \<open>\<^verbatim>\<open>s.includes(p)\<close>: \<open>p\<close> occurs in \<open>s\<close> as a contiguous substring.\<close>

fun str_includes :: "string \<Rightarrow> string \<Rightarrow> bool" where
  "str_includes [] p = (p = [])"
| "str_includes (c # cs) p = (startsWith (c # cs) p \<or> str_includes cs p)"

text \<open>
  \<^verbatim>\<open>s.trim()\<close> strips the white space and the line terminators of ECMAScript from
  both ends: TAB, LF, VT, FF, CR, SP, U+00A0, U+1680, U+2000 to U+200A, U+2028, U+2029,
  U+202F, U+205F, U+3000 and U+FEFF. On the UTF-8 bytes each of them is one of the byte
  sequences below; a sequence found at the start or at the end of a well-formed string is
  that character, since a lead byte never occurs inside another character.
\<close>

definition white_space :: "string list" where
  "white_space =
     [[CHR 0x09], [CHR 0x0A], [CHR 0x0B], [CHR 0x0C], [CHR 0x0D], [CHR 0x20],
      [CHR 0xC2, CHR 0xA0], [CHR 0xE1, CHR 0x9A, CHR 0x80],
      [CHR 0xE2, CHR 0x80, CHR 0x80], [CHR 0xE2, CHR 0x80, CHR 0x81],
      [CHR 0xE2, CHR 0x80, CHR 0x82], [CHR 0xE2, CHR 0x80, CHR 0x83],
      [CHR 0xE2, CHR 0x80, CHR 0x84], [CHR 0xE2, CHR 0x80, CHR 0x85],
      [CHR 0xE2, CHR 0x80, CHR 0x86], [CHR 0xE2, CHR 0x80, CHR 0x87],
      [CHR 0xE2, CHR 0x80, CHR 0x88], [CHR 0xE2, CHR 0x80, CHR 0x89],
      [CHR 0xE2, CHR 0x80, CHR 0x8A], [CHR 0xE2, CHR 0x80, CHR 0xA8],
      [CHR 0xE2, CHR 0x80, CHR 0xA9], [CHR 0xE2, CHR 0x80, CHR 0xAF],
      [CHR 0xE2, CHR 0x81, CHR 0x9F], [CHR 0xE3, CHR 0x80, CHR 0x80],
      [CHR 0xEF, CHR 0xBB, CHR 0xBF]]"

function trimStart :: "string \<Rightarrow> string" where
  "trimStart s =
     (case List.find (startsWith s) white_space of
        None \<Rightarrow> s
      | Some t \<Rightarrow> trimStart (drop (length t) s))"
  by pat_completeness auto
termination
proof (relation "measure length")
  show "wf (measure length)" by simp
next
  fix s t
  assume "List.find (startsWith s) white_space = Some t"
  then have "startsWith s t" and "t \<in> set white_space"
    by (auto simp: find_Some_iff)
  then have "t \<noteq> []" and "take (length t) s = t"
    by (auto simp: white_space_def startsWith_def)
  then have "s \<noteq> []" by auto
  with \<open>t \<noteq> []\<close> show "(drop (length t) s, s) \<in> measure length" by simp
qed

function trimEnd :: "string \<Rightarrow> string" where
  "trimEnd s =
     (case List.find (endsWith s) white_space of
        None \<Rightarrow> s
      | Some t \<Rightarrow> trimEnd (take (length s - length t) s))"
  by pat_completeness auto
termination
proof (relation "measure length")
  show "wf (measure length)" by simp
next
  fix s t
  assume "List.find (endsWith s) white_space = Some t"
  then have "endsWith s t" and "t \<in> set white_space"
    by (auto simp: find_Some_iff)
  then have "0 < length t" and "length t \<le> length s"
    by (auto simp: white_space_def endsWith_def)
  then have "length s - length t < length s" by (cases t; cases s) auto
  then show "(take (length s - length t) s, s) \<in> measure length" by simp
qed

declare trimStart.simps [simp del]

declare trimEnd.simps [simp del]

definition trim :: "string \<Rightarrow> string" where
  "trim s = trimEnd (trimStart s)"

text \<open>\<^verbatim>\<open>s.split("\n")\<close>: never empty, \<^verbatim>\<open>"".split("\n")\<close> is \<^verbatim>\<open>[""]\<close>.\<close>

fun split_nl :: "string \<Rightarrow> string list" where
  "split_nl [] = [[]]"
| "split_nl (c # cs) =
     (if c = CHR 0x0A then [] # split_nl cs
      else (case split_nl cs of [] \<Rightarrow> [[c]] | l # ls \<Rightarrow> (c # l) # ls))"

text \<open>\<^verbatim>\<open>ls.join("\n")\<close>.\<close>

fun join_nl :: "string list \<Rightarrow> string" where
  "join_nl [] = []"
| "join_nl [l] = l"
| "join_nl (l # m # ls) = l @ CHR 0x0A # join_nl (m # ls)"

text \<open>The decimal digits of a natural number, as a template literal prints an array length.\<close>

definition digit_char :: "nat \<Rightarrow> char" where
  "digit_char n = ''0123456789'' ! n"

function show_nat :: "nat \<Rightarrow> string" where
  "show_nat n = (if n < 10 then [digit_char n] else show_nat (n div 10) @ [digit_char (n mod 10)])"
  by pat_completeness auto
termination
  by (relation "measure id") auto

declare show_nat.simps [simp del]

text \<open>
  A number in a template literal is printed by \<^verbatim>\<open>Number::toString\<close>. For an integer
  \<open>m\<close> that is a Number value: below \<open>2\<^sup>5\<^sup>3\<close> every integer is a Number value of its own
  and the digits are the exact decimal digits; from there on the digits are those of the
  shortest decimal numeral \<open>s \<times> 10\<^bsup>n-k\<^esup>\<close> whose Number value is \<open>m\<close> (the closest one
  to \<open>m\<close> among the shortest, 17 digits always being enough), followed by zeros while
  \<open>n \<le> 21\<close>, and in exponent notation when \<open>n > 21\<close>. A negative number has a minus sign in
  front. \<open>to_double\<close> is the Number value of an integer: rounding to 53 significant bits,
  ties to even.
\<close>

function bit_length :: "nat \<Rightarrow> nat" where
  "bit_length n = (if n = 0 then 0 else Suc (bit_length (n div 2)))"
  by pat_completeness auto
termination
  by (relation "measure id") auto

declare bit_length.simps [simp del]

definition to_double :: "nat \<Rightarrow> nat" where
  "to_double x =
     (if x < 2 ^ 53 then x
      else
        let e = bit_length x - 53;
            q = x div 2 ^ e;
            r = x mod 2 ^ e;
            half = 2 ^ (e - 1);
            q' = (if half < r \<or> (r = half \<and> odd q) then q + 1 else q)
        in q' * 2 ^ e)"

text \<open>
  The two numerals of \<open>k\<close> significant digits next to \<open>m\<close>, the closer one first (the even
  one on a tie).
\<close>

definition candidates :: "nat \<Rightarrow> nat \<Rightarrow> nat list" where
  "candidates m k =
     (let n = length (show_nat m);
          p = 10 ^ (n - k);
          lo = (m div p) * p;
          hi = lo + p
      in if m - lo < hi - m \<or> (m - lo = hi - m \<and> even (m div p)) then [lo, hi] else [hi, lo])"

fun shortest_from :: "nat \<Rightarrow> nat \<Rightarrow> nat \<Rightarrow> nat" where
  "shortest_from 0 k m = m"
| "shortest_from (Suc fuel) k m =
     (case List.find (\<lambda>c. to_double c = m) (candidates m k) of
        Some c \<Rightarrow> c
      | None \<Rightarrow> shortest_from fuel (Suc k) m)"

definition shortest_decimal :: "nat \<Rightarrow> nat" where
  "shortest_decimal m = shortest_from 17 (Suc 0) m"

definition strip_zeros :: "string \<Rightarrow> string" where
  "strip_zeros ds = rev (dropWhile (\<lambda>d. d = CHR ''0'') (rev ds))"

definition number_to_string_nat :: "nat \<Rightarrow> string" where
  "number_to_string_nat m =
     (if m < 2 ^ 53 then show_nat m
      else
        let digits = show_nat (shortest_decimal m);
            n = length digits;
            s = strip_zeros digits
        in if n \<le> 21 then digits
           else if length s = 1 then s @ ''e+'' @ show_nat (n - 1)
           else take 1 s @ ''.'' @ drop 1 s @ ''e+'' @ show_nat (n - 1))"

definition number_to_string :: "int \<Rightarrow> string" where
  "number_to_string i =
     (if i < 0 then ''-'' @ number_to_string_nat (nat (- i)) else number_to_string_nat (nat i))"

section \<open>Validation (git.ts: src/src/config.ts, lines 32 to 62)\<close>

text \<open>A validator returns \<^verbatim>\<open>null\<close> (\<^term>\<open>None\<close>) to accept and a reason to reject.\<close>

text \<open>\<^verbatim>\<open>BRANCH_RE = /^[a-zA-Z0-9._\/-]+$/\<close>\<close>

definition branch_char :: "char \<Rightarrow> bool" where
  "branch_char c =
     (let n = (of_char c :: nat) in
        (97 \<le> n \<and> n \<le> 122) \<or> (65 \<le> n \<and> n \<le> 90) \<or> (48 \<le> n \<and> n \<le> 57)
        \<or> c = CHR ''.'' \<or> c = CHR ''_'' \<or> c = CHR ''/'' \<or> c = CHR ''-'')"

definition BRANCH_RE_test :: "string \<Rightarrow> bool" where
  "BRANCH_RE_test s = (s \<noteq> [] \<and> list_all branch_char s)"

text \<open>\<^verbatim>\<open>SHELL_META = /[;&|`$(){}!#~<>*?\[\]\n\r\\'"]/\<close>\<close>

definition shell_meta_chars :: "char list" where
  "shell_meta_chars =
     [CHR 0x3B, CHR 0x26, CHR 0x7C, CHR 0x60, CHR 0x24, CHR 0x28, CHR 0x29, CHR 0x7B, CHR 0x7D,
      CHR 0x21, CHR 0x23, CHR 0x7E, CHR 0x3C, CHR 0x3E, CHR 0x2A, CHR 0x3F, CHR 0x5B, CHR 0x5D,
      CHR 0x0A, CHR 0x0D, CHR 0x5C, CHR 0x27, CHR 0x22]"

definition is_shell_meta :: "char \<Rightarrow> bool" where
  "is_shell_meta c = (c \<in> set shell_meta_chars)"

definition SHELL_META_test :: "string \<Rightarrow> bool" where
  "SHELL_META_test s = list_ex is_shell_meta s"

definition MAX_DIFF_LINES :: nat where
  "MAX_DIFF_LINES = 500"

definition MAX_LOG_ENTRIES :: nat where
  "MAX_LOG_ENTRIES = 200"

definition validateBranchName :: "string \<Rightarrow> string option" where
  "validateBranchName name =
     (if name = [] then Some ''branch name cannot be empty''
      else if startsWith name ''-'' then
        Some ''branch name cannot start with a dash (looks like a flag)''
      else if startsWith name ''.'' \<or> endsWith name ''.'' \<or> endsWith name ''.lock'' then
        Some ''invalid branch name''
      else if str_includes name ''..'' \<or> str_includes name [CHR 0x40, CHR 0x7B]
              \<or> str_includes name ''~'' \<or> str_includes name ''^'' \<or> str_includes name '' '' then
        Some ''branch name contains invalid characters''
      else if \<not> BRANCH_RE_test name then
        Some (''branch name contains invalid characters '' @ [CHR 0xE2, CHR 0x80, CHR 0x94]
              @ '' only a-z, 0-9, ''
              @ [CHR 0x27, CHR ''.'', CHR 0x27] @ '', ''
              @ [CHR 0x27, CHR ''_'', CHR 0x27] @ '', ''
              @ [CHR 0x27, CHR ''/'', CHR 0x27] @ '', ''
              @ [CHR 0x27, CHR ''-'', CHR 0x27] @ '' allowed'')
      else None)"

text \<open>
  The metacharacter test of \<^verbatim>\<open>validateFilePath\<close> guards an empty block: it is
  evaluated and decides nothing.
\<close>

definition validateFilePath :: "string \<Rightarrow> string option" where
  "validateFilePath p =
     (if p = [] then Some ''file path cannot be empty''
      else let unused = (SHELL_META_test p \<and> \<not> str_includes p [CHR 0x27]
                          \<and> \<not> str_includes p '' '') in
        if startsWith p ''-'' then Some ''file path cannot start with a dash''
        else None)"

definition validateRef :: "string \<Rightarrow> string option" where
  "validateRef ref =
     (if ref = [] then Some ''ref cannot be empty''
      else if startsWith ref ''-'' then Some ''ref cannot start with a dash''
      else if SHELL_META_test ref then Some ''ref contains invalid characters''
      else None)"

text \<open>
  Modelled from the spec: \<^verbatim>\<open>validateRemoteName\<close> is imported from git.ts by the
  plugin but is not defined in the sources at hand. The specification gives it "the same
  dash/metacharacter discipline as refs": empty, dash-prefixed and metacharacter-bearing
  names are rejected.
\<close>

definition validateRemoteName :: "string \<Rightarrow> string option" where
  "validateRemoteName remote =
     (if remote = [] then Some ''remote name cannot be empty''
      else if startsWith remote ''-'' then Some ''remote name cannot start with a dash''
      else if SHELL_META_test remote then Some ''remote name contains invalid characters''
      else None)"

text \<open>
  Modelled from the spec: \<^verbatim>\<open>validateLogFilter\<close> is imported from git.ts by the
  plugin but is not defined in the sources at hand. The specification: it "rejects
  dash-prefixed values and shell metacharacters"; the second argument names the field.
\<close>

definition validateLogFilter :: "string \<Rightarrow> string \<Rightarrow> string option" where
  "validateLogFilter v fieldName =
     (if startsWith v ''-'' then Some (fieldName @ '' cannot start with a dash'')
      else if SHELL_META_test v then Some (fieldName @ '' contains invalid characters'')
      else None)"

text \<open>
  Modelled from the spec: \<^verbatim>\<open>validateLabel\<close> is imported from git.ts by the plugin
  but is not defined in the sources at hand. The specification: it "rejects dash-prefixed
  and metacharacter-laden values".
\<close>

definition validateLabel :: "string \<Rightarrow> string option" where
  "validateLabel label =
     (if startsWith label ''-'' then Some ''label cannot start with a dash''
      else if SHELL_META_test label then Some ''label contains invalid characters''
      else None)"

section \<open>Output truncation (git.ts: src/src/config.ts, lines 113 to 133)\<close>

definition truncation_marker :: "nat \<Rightarrow> string \<Rightarrow> string" where
  "truncation_marker dropped label =
     CHR 0x0A # ''... truncated ('' @ show_nat dropped @ '' more lines of '' @ label @ '')''"

definition truncateOutput :: "string \<Rightarrow> nat \<Rightarrow> string \<Rightarrow> string" where
  "truncateOutput text maxLines label =
     (let lines = split_nl text in
        if length lines \<le> maxLines then text
        else
          let kept = take maxLines lines;
              dropped = length lines - maxLines
          in join_nl (kept @ [truncation_marker dropped label]))"


text \<open>
  \<^verbatim>\<open>filterBinaryDiffs\<close>: a line that starts with "Binary files" and contains "differ"
  gets the suffix " [binary \<emdash> skipped]" (the dash is U+2014, three bytes).
\<close>

definition filterBinaryDiffs :: "string \<Rightarrow> string" where
  "filterBinaryDiffs text =
     join_nl (map (\<lambda>line.
        if startsWith line ''Binary files'' \<and> str_includes line ''differ''
        then line @ '' [binary '' @ [CHR 0xE2, CHR 0x80, CHR 0x94] @ '' skipped]''
        else line) (split_nl text))"

section \<open>Configuration (config.ts: src/src/config.ts, lines 1 to 15)\<close>

record GitOpsConfig =
  allowForcePush :: bool
  allowMainCommit :: bool
  defaultRemote :: string
  commitPrefix :: string
  protectedBranches :: "string list"

definition DEFAULTS :: GitOpsConfig where
  "DEFAULTS = \<lparr> allowForcePush = False, allowMainCommit = False, defaultRemote = ''origin'',
                 commitPrefix = [], protectedBranches = [''main'', ''master''] \<rparr>"

section \<open>The host: child processes and temporary files\<close>

text \<open>
  A child process is the executable, its argument vector and its working directory.
  The world records every child process created, oldest first, and the files that
  exist. The host is everything the plugin does not decide: how a child process
  answers (which may depend on the processes run before it), whether a write to a path
  succeeds, the temporary directory, the random token, the working directory of the
  plugin process.

  \<^verbatim>\<open>execFile\<close> reports every failure of the child process through its callback;
  strings are taken to be free of NUL characters, the one case in which it throws instead.
  A write may fail, and may then leave a partial file behind or none. Unlinking an
  existing file may fail too (EPERM, EBUSY, EACCES, EROFS): the host says for which paths.
\<close>

datatype proc = Proc (proc_exe: string) (proc_args: "string list") (proc_cwd: string)

text \<open>What \<^verbatim>\<open>execFile\<close> hands to its callback: \<^verbatim>\<open>(err, stdout, stderr)\<close>.\<close>

datatype exec_error = NoError | ErrorWithCode int | ErrorWithoutCode

datatype write_outcome = Written | WriteFailedNoFile | WriteFailedPartial string

record host =
  respond :: "proc list \<Rightarrow> proc \<Rightarrow> exec_error \<times> string \<times> string"
  write_outcome_of :: "string \<Rightarrow> write_outcome"
  unlink_fails :: "string \<Rightarrow> bool"
  tmpdir :: string
  randomUUID :: string
  process_cwd :: string

record world =
  procs :: "proc list"
  files :: "string \<rightharpoonup> string"

record GitResult =
  stdout :: string
  stderr :: string
  exitCode :: int

definition execFile ::
  "host \<Rightarrow> string \<Rightarrow> string list \<Rightarrow> string \<Rightarrow> world \<Rightarrow> (exec_error \<times> string \<times> string) \<times> world" where
  "execFile h exe args cwd w =
     (let p = Proc exe args cwd in (respond h (procs w) p, w\<lparr>procs := procs w @ [p]\<rparr>))"

text \<open>\<^verbatim>\<open>err && "code" in err ? err.code : err ? 1 : 0\<close>\<close>

definition exit_code_of :: "exec_error \<Rightarrow> int" where
  "exit_code_of e = (case e of NoError \<Rightarrow> 0 | ErrorWithCode c \<Rightarrow> c | ErrorWithoutCode \<Rightarrow> 1)"

text \<open>The processes created between two worlds.\<close>

definition spawned :: "world \<Rightarrow> world \<Rightarrow> proc list" where
  "spawned w w' = drop (length (procs w)) (procs w')"

datatype exn = WriteError string

definition writeFileSync :: "host \<Rightarrow> string \<Rightarrow> string \<Rightarrow> world \<Rightarrow> (exn + unit) \<times> world" where
  "writeFileSync h path content w =
     (case write_outcome_of h path of
        Written \<Rightarrow> (Inr (), w\<lparr>files := (files w)(path \<mapsto> content)\<rparr>)
      | WriteFailedNoFile \<Rightarrow> (Inl (WriteError path), w)
      | WriteFailedPartial part \<Rightarrow> (Inl (WriteError path), w\<lparr>files := (files w)(path \<mapsto> part)\<rparr>))"

text \<open>
  \<^verbatim>\<open>try { unlinkSync(f); } catch {}\<close>: an existing file is removed unless the unlink
  fails; a failing unlink and the unlink of a file that does not exist throw, and the
  exception is swallowed, which leaves the files as they are.
\<close>

definition unlink_quietly :: "host \<Rightarrow> string \<Rightarrow> world \<Rightarrow> world" where
  "unlink_quietly h path w =
     (case files w path of
        Some _ \<Rightarrow> if unlink_fails h path then w else w\<lparr>files := (files w)(path := None)\<rparr>
      | None \<Rightarrow> w)"

text \<open>
  \<^verbatim>\<open>try { body } finally { cleanup }\<close>: the cleanup runs however the body is left,
  by a \<^verbatim>\<open>return\<close> or by an exception, and the outcome of the body stands.
\<close>

definition try_finally :: "(world \<Rightarrow> 'a \<times> world) \<Rightarrow> (world \<Rightarrow> world) \<Rightarrow> world \<Rightarrow> 'a \<times> world" where
  "try_finally body cleanup w = (let (outcome, w') = body w in (outcome, cleanup w'))"

text \<open>\<^verbatim>\<open>join(tmpdir(), name)\<close>\<close>

definition join_path :: "string \<Rightarrow> string \<Rightarrow> string" where
  "join_path dir name = dir @ ''/'' @ name"

section \<open>The git command runner (git.ts: src/src/config.ts, lines 66 to 111)\<close>

definition ALLOWED_SUBCOMMANDS :: "string list" where
  "ALLOWED_SUBCOMMANDS =
     [''status'', ''diff'', ''log'', ''branch'', ''add'', ''commit'', ''push'', ''pull'',
      ''stash'', ''blame'', ''rev-parse'', ''symbolic-ref'', ''remote'', ''checkout'',
      ''switch'', ''fetch'', ''merge'', ''rebase'', ''tag'', ''show'', ''config'']"

definition blocked :: "string \<Rightarrow> GitResult" where
  "blocked subcommand =
     \<lparr> stdout = [],
       stderr = ''blocked: git subcommand '' @ [CHR 0x27] @ subcommand @ [CHR 0x27]
                @ '' is not allowed'',
       exitCode = 1 \<rparr>"

text \<open>
  \<^verbatim>\<open>runGit(args, cwd)\<close>. An absent first argument prints as \<^verbatim>\<open>undefined\<close>.
  The promise always resolves.
\<close>

definition runGit :: "host \<Rightarrow> string list \<Rightarrow> string \<Rightarrow> world \<Rightarrow> GitResult \<times> world" where
  "runGit h args cwd w =
     (case args of
        [] \<Rightarrow> (blocked ''undefined'', w)
      | subcommand # _ \<Rightarrow>
          if subcommand = [] \<or> subcommand \<notin> set ALLOWED_SUBCOMMANDS then (blocked subcommand, w)
          else
            let ((e, out, errout), w') = execFile h ''git'' args cwd w
            in (\<lparr> stdout = out, stderr = errout, exitCode = exit_code_of e \<rparr>, w'))"

definition isGitRepo :: "host \<Rightarrow> string \<Rightarrow> world \<Rightarrow> bool \<times> world" where
  "isGitRepo h cwd w =
     (let (result, w1) = runGit h [''rev-parse'', ''--is-inside-work-tree''] cwd w
      in (exitCode result = 0 \<and> trim (stdout result) = ''true'', w1))"

definition getCurrentBranch :: "host \<Rightarrow> string \<Rightarrow> world \<Rightarrow> string option \<times> world" where
  "getCurrentBranch h cwd w =
     (let (result, w1) = runGit h [''symbolic-ref'', ''--short'', ''HEAD''] cwd w in
        if exitCode result = 0 then (Some (trim (stdout result)), w1)
        else
          let (rev, w2) = runGit h [''rev-parse'', ''--short'', ''HEAD''] cwd w1 in
            if exitCode rev = 0 then (Some (''(detached at '' @ trim (stdout rev) @ '')''), w2)
            else (None, w2))"

text \<open>
  The read-only child processes of \<^verbatim>\<open>isGitRepo\<close> and
  \<^verbatim>\<open>getCurrentBranch\<close>.
\<close>

definition probe :: "proc \<Rightarrow> bool" where
  "probe p =
     (proc_exe p = ''git'' \<and>
      proc_args p \<in> set [[''rev-parse'', ''--is-inside-work-tree''],
                          [''symbolic-ref'', ''--short'', ''HEAD''],
                          [''rev-parse'', ''--short'', ''HEAD'']])"


section \<open>The tools (index.ts: src/src/config.ts, lines 150 to 735)\<close>

datatype tool_result = ToolText string

definition text_result :: "string \<Rightarrow> tool_result" where
  "text_result s = ToolText s"

definition err :: "string \<Rightarrow> tool_result" where
  "err s = text_result (''error: '' @ s)"

definition result_text :: "tool_result \<Rightarrow> string" where
  "result_text r = (case r of ToolText s \<Rightarrow> s)"

text \<open>A result made by \<^verbatim>\<open>err\<close>.\<close>

definition is_error :: "tool_result \<Rightarrow> bool" where
  "is_error r = startsWith (result_text r) ''error: ''"

definition not_a_repository :: string where
  "not_a_repository = ''not a git repository (or any parent up to mount point)''"

definition isProtected :: "GitOpsConfig \<Rightarrow> string \<Rightarrow> bool" where
  "isProtected cfg branch = (branch \<in> set (protectedBranches cfg))"

text \<open>A string is truthy when it is present and not empty.\<close>

definition truthy :: "string option \<Rightarrow> bool" where
  "truthy s = (case s of None \<Rightarrow> False | Some v \<Rightarrow> v \<noteq> [])"

text \<open>\<^verbatim>\<open>a || b\<close> on strings.\<close>

definition or_else :: "string \<Rightarrow> string \<Rightarrow> string" where
  "or_else a b = (if a \<noteq> [] then a else b)"

text \<open>\<^verbatim>\<open>(params.cwd as string) || context?.cwd || process.cwd()\<close>\<close>

definition resolve_cwd :: "host \<Rightarrow> string option \<Rightarrow> string option \<Rightarrow> string" where
  "resolve_cwd h param_cwd context_cwd =
     (if truthy param_cwd then the param_cwd
      else if truthy context_cwd then the context_cwd
      else process_cwd h)"

subsection \<open>git_branch (lines 366 to 411)\<close>

record branch_params =
  bp_cwd :: "string option"
  bp_action :: "string option"
  bp_name :: "string option"
  bp_startPoint :: "string option"
  bp_all :: bool

definition quoted :: "string \<Rightarrow> string" where
  "quoted s = [CHR 0x27] @ s @ [CHR 0x27]"

definition git_branch ::
  "host \<Rightarrow> GitOpsConfig \<Rightarrow> branch_params \<Rightarrow> string option \<Rightarrow> world \<Rightarrow> tool_result \<times> world" where
  "git_branch h cfg params context_cwd w =
     (let cwd = resolve_cwd h (bp_cwd params) context_cwd;
          (repo, w1) = isGitRepo h cwd w
      in
        if \<not> repo then (err not_a_repository, w1)
        else
          let action = (case bp_action params of None \<Rightarrow> ''list'' | Some a \<Rightarrow> a) in
          if action = ''list'' then
            let (result, w2) =
                  runGit h ([''branch'', ''-v''] @ (if bp_all params then [''-a''] else [])) cwd w1
            in if exitCode result \<noteq> 0 then (err (stderr result), w2)
               else (text_result (or_else (stdout result) ''no branches''), w2)
          else if \<not> truthy (bp_name params) then
            (err (''branch name required for '' @ quoted action), w1)
          else
            let name = the (bp_name params) in
            case validateBranchName name of
              Some nameErr \<Rightarrow> (err nameErr, w1)
            | None \<Rightarrow>
                if action = ''create'' then
                  (if truthy (bp_startPoint params) then
                     (case validateRef (the (bp_startPoint params)) of
                        Some v \<Rightarrow> (err v, w1)
                      | None \<Rightarrow>
                          let (result, w2) =
                                runGit h [''branch'', name, the (bp_startPoint params)] cwd w1
                          in if exitCode result \<noteq> 0 then (err (stderr result), w2)
                             else (text_result (''created branch '' @ quoted name), w2))
                   else
                     let (result, w2) = runGit h [''branch'', name] cwd w1
                     in if exitCode result \<noteq> 0 then (err (stderr result), w2)
                        else (text_result (''created branch '' @ quoted name), w2))
                else if action = ''switch'' then
                  (let (result, w2) = runGit h [''switch'', name] cwd w1
                   in if exitCode result \<noteq> 0 then (err (stderr result), w2)
                      else (text_result (''switched to '' @ quoted name), w2))
                else if action = ''delete'' then
                  (if isProtected cfg name then
                     (err (''cannot delete protected branch '' @ quoted name), w1)
                   else
                     let (result, w2) = runGit h [''branch'', ''-d'', name] cwd w1
                     in if exitCode result \<noteq> 0 then (err (stderr result), w2)
                        else (text_result (''deleted branch '' @ quoted name), w2))
                else (err (''unknown action '' @ quoted action), w1))"

subsection \<open>git_commit (lines 429 to 466)\<close>

record commit_params =
  cp_cwd :: "string option"
  cp_message :: string
  cp_files :: "string list option"
  cp_all :: bool

text \<open>The validation loop over the paths: the first rejected path and its reason.\<close>

fun first_invalid_path :: "string list \<Rightarrow> (string \<times> string) option" where
  "first_invalid_path [] = None"
| "first_invalid_path (f # fs) =
     (case validateFilePath f of Some v \<Rightarrow> Some (f, v) | None \<Rightarrow> first_invalid_path fs)"

definition main_commit_blocked :: "string \<Rightarrow> string" where
  "main_commit_blocked branch =
     ''direct commits to '' @ quoted branch
     @ '' are blocked. set allowMainCommit: true in config to override.''"

text \<open>
  The body of the \<^verbatim>\<open>try\<close> block of git_commit: write the message, build the
  argument vector, run the commit.
\<close>

definition commit_try ::
  "host \<Rightarrow> commit_params \<Rightarrow> string \<Rightarrow> string \<Rightarrow> string \<Rightarrow> world \<Rightarrow> (exn + tool_result) \<times> world" where
  "commit_try h params cwd msgFile message w =
     (case writeFileSync h msgFile message w of
        (Inl e, w1) \<Rightarrow> (Inl e, w1)
      | (Inr _, w1) \<Rightarrow>
          let args = (if cp_all params then [''commit'', ''-a'', ''--file'', msgFile]
                      else [''commit'', ''--file'', msgFile]);
              (result, w2) = runGit h args cwd w1
          in if exitCode result \<noteq> 0 then (Inr (err (or_else (stderr result) (stdout result))), w2)
             else (Inr (text_result (stdout result)), w2))"

definition msgFile_of :: "host \<Rightarrow> string" where
  "msgFile_of h = join_path (tmpdir h) (''openclaw-git-msg-'' @ randomUUID h @ ''.txt'')"

text \<open>git_commit from the staging of the files on, that is, past the protected-branch check.\<close>

definition stage_and_commit ::
  "host \<Rightarrow> GitOpsConfig \<Rightarrow> commit_params \<Rightarrow> string \<Rightarrow> world \<Rightarrow> (exn + tool_result) \<times> world" where
  "stage_and_commit h cfg params cwd w2 =
     (let files = (case cp_files params of None \<Rightarrow> [] | Some fs \<Rightarrow> fs) in
        case first_invalid_path files of
          Some (f, v) \<Rightarrow> (Inr (err (''invalid path '' @ quoted f @ '': '' @ v)), w2)
        | None \<Rightarrow>
            let (addResult, w3) =
                  (if files \<noteq> [] then runGit h ([''add'', ''--''] @ files) cwd w2
                   else (\<lparr> stdout = [], stderr = [], exitCode = 0 \<rparr>, w2))
            in
              if files \<noteq> [] \<and> exitCode addResult \<noteq> 0 then
                (Inr (err (''staging failed: '' @ stderr addResult)), w3)
              else
                let message = (if commitPrefix cfg \<noteq> [] then commitPrefix cfg @ cp_message params
                               else cp_message params);
                    msgFile = msgFile_of h
                in try_finally (commit_try h params cwd msgFile message)
                     (unlink_quietly h msgFile) w3)"

definition git_commit ::
  "host \<Rightarrow> GitOpsConfig \<Rightarrow> commit_params \<Rightarrow> string option \<Rightarrow> world \<Rightarrow> (exn + tool_result) \<times> world" where
  "git_commit h cfg params context_cwd w =
     (let cwd = resolve_cwd h (cp_cwd params) context_cwd;
          (repo, w1) = isGitRepo h cwd w
      in
        if \<not> repo then (Inr (err not_a_repository), w1)
        else
          let (branch, w2) = getCurrentBranch h cwd w1 in
          if truthy branch \<and> \<not> allowMainCommit cfg \<and> isProtected cfg (the branch) then
            (Inr (err (main_commit_blocked (the branch))), w2)
          else stage_and_commit h cfg params cwd w2)"

subsection \<open>git_push (lines 486 to 517)\<close>

record push_params =
  pp_cwd :: "string option"
  pp_remote :: "string option"
  pp_branch :: "string option"
  pp_force :: bool
  pp_setUpstream :: bool
  pp_dryRun :: bool

text \<open>
  \<^verbatim>\<open>branch.replace(/^\(detached.*\)$/, "")\<close>: the dot matches anything but a line
  terminator (LF, CR, U+2028, U+2029), and the pattern is anchored at both ends, so a
  match replaces the whole string.
\<close>

definition has_line_terminator :: "string \<Rightarrow> bool" where
  "has_line_terminator s =
     (CHR 0x0A \<in> set s \<or> CHR 0x0D \<in> set s
      \<or> str_includes s [CHR 0xE2, CHR 0x80, CHR 0xA8] \<or> str_includes s [CHR 0xE2, CHR 0x80, CHR 0xA9])"

definition strip_detached :: "string \<Rightarrow> string" where
  "strip_detached branch =
     (if startsWith branch ''(detached'' \<and> endsWith (drop 9 branch) '')''
         \<and> \<not> has_line_terminator branch
      then [] else branch)"

definition force_push_disabled :: string where
  "force_push_disabled = ''force push is disabled. set allowForcePush: true in config to enable.''"

definition force_push_protected :: "string \<Rightarrow> string" where
  "force_push_protected branch =
     ''force push to protected branch '' @ quoted branch @ '' is always blocked.''"

definition push_args :: "push_params \<Rightarrow> string \<Rightarrow> string option \<Rightarrow> string list" where
  "push_args params remote branch =
     [''push'']
     @ (if pp_force params then [''--force-with-lease''] else [])
     @ (if pp_setUpstream params then [''-u''] else [])
     @ (if pp_dryRun params then [''--dry-run''] else [])
     @ [remote]
     @ (if truthy branch \<and> \<not> startsWith (the branch) ''(detached'' then [the branch] else [])"

definition git_push ::
  "host \<Rightarrow> GitOpsConfig \<Rightarrow> push_params \<Rightarrow> string option \<Rightarrow> world \<Rightarrow> tool_result \<times> world" where
  "git_push h cfg params context_cwd w =
     (let cwd = resolve_cwd h (pp_cwd params) context_cwd;
          (repo, w1) = isGitRepo h cwd w
      in
        if \<not> repo then (err not_a_repository, w1)
        else
          let remote = (case pp_remote params of None \<Rightarrow> defaultRemote cfg | Some r \<Rightarrow> r) in
          case validateRemoteName remote of
            Some remoteErr \<Rightarrow> (err remoteErr, w1)
          | None \<Rightarrow>
              let (branch, w2) = (case pp_branch params of
                                    Some b \<Rightarrow> (Some b, w1)
                                  | None \<Rightarrow> getCurrentBranch h cwd w1);
                  force = pp_force params;
                  nameErr = (if truthy branch then validateBranchName (strip_detached (the branch))
                             else None)
              in
                if truthy branch \<and> nameErr \<noteq> None \<and> \<not> startsWith (the branch) ''(detached'' then
                  (err (the nameErr), w2)
                else if force \<and> \<not> allowForcePush cfg then (err force_push_disabled, w2)
                else if force \<and> truthy branch \<and> isProtected cfg (the branch) then
                  (err (force_push_protected (the branch)), w2)
                else
                  let (result, w3) = runGit h (push_args params remote branch) cwd w2 in
                    if exitCode result \<noteq> 0 then (err (stderr result), w3)
                    else (text_result
                            (or_else (stderr result) (or_else (stdout result) ''pushed successfully'')),
                          w3))"

subsection \<open>git_stash (lines 579 to 620)\<close>

text \<open>
  The index is a finite Number value: a real number here. \<^verbatim>\<open>Math.floor\<close> and
  \<^verbatim>\<open>Math.max(0, _)\<close> give an integer, which the template literal prints as
  \<^verbatim>\<open>Number::toString\<close> does.
\<close>

record stash_params =
  sp_cwd :: "string option"
  sp_action :: "string option"
  sp_message :: "string option"
  sp_index :: "real option"

definition stash_idx :: "stash_params \<Rightarrow> int" where
  "stash_idx params =
     (let rawIdx = (case sp_index params of None \<Rightarrow> 0 | Some i \<Rightarrow> i)
      in max 0 \<lfloor>rawIdx\<rfloor>)"

definition stash_ref :: "int \<Rightarrow> string" where
  "stash_ref idx = ''stash'' @ [CHR 0x40, CHR 0x7B] @ number_to_string idx @ [CHR 0x7D]"

definition git_stash ::
  "host \<Rightarrow> GitOpsConfig \<Rightarrow> stash_params \<Rightarrow> string option \<Rightarrow> world \<Rightarrow> tool_result \<times> world" where
  "git_stash h cfg params context_cwd w =
     (let cwd = resolve_cwd h (sp_cwd params) context_cwd;
          (repo, w1) = isGitRepo h cwd w
      in
        if \<not> repo then (err not_a_repository, w1)
        else
          let action = (case sp_action params of None \<Rightarrow> ''push'' | Some a \<Rightarrow> a);
              idx = stash_idx params
          in
            if action = ''list'' then
              (let (result, w2) = runGit h [''stash'', ''list''] cwd w1
               in if exitCode result \<noteq> 0 then (err (stderr result), w2)
                  else (text_result (or_else (stdout result) ''no stashes''), w2))
            else if action = ''push'' then
              (let args = [''stash'', ''push'']
                          @ (if truthy (sp_message params) then [''-m'', the (sp_message params)]
                             else []);
                   (result, w2) = runGit h args cwd w1
               in if exitCode result \<noteq> 0 then (err (stderr result), w2)
                  else (text_result (or_else (stdout result) ''stashed''), w2))
            else if action = ''pop'' then
              (let (result, w2) = runGit h [''stash'', ''pop'', stash_ref idx] cwd w1
               in if exitCode result \<noteq> 0 then (err (stderr result), w2)
                  else (text_result (or_else (stdout result) ''popped stash''), w2))
            else if action = ''drop'' then
              (let (result, w2) = runGit h [''stash'', ''drop'', stash_ref idx] cwd w1
               in if exitCode result \<noteq> 0 then (err (stderr result), w2)
                  else (text_result (or_else (stdout result) ''dropped stash''), w2))
            else if action = ''show'' then
              (let (result, w2) = runGit h [''stash'', ''show'', ''-p'', stash_ref idx] cwd w1
               in if exitCode result \<noteq> 0 then (err (stderr result), w2)
                  else (text_result
                          (truncateOutput (filterBinaryDiffs (stdout result)) MAX_DIFF_LINES
                             ''stash diff''), w2))
            else (err (''unknown stash action '' @ quoted action), w1))"

subsection \<open>git_pr (lines 677 to 732)\<close>

record pr_params =
  pr_cwd :: "string option"
  pr_title :: string
  pr_body :: "string option"
  pr_base :: "string option"
  pr_draft :: bool
  pr_labels :: "string list option"

fun first_invalid_label :: "string list \<Rightarrow> string option" where
  "first_invalid_label [] = None"
| "first_invalid_label (l # ls) =
     (case validateLabel l of Some lv \<Rightarrow> Some lv | None \<Rightarrow> first_invalid_label ls)"

text \<open>\<^verbatim>\<open>labels.join(",")\<close>\<close>

fun join_comma :: "string list \<Rightarrow> string" where
  "join_comma [] = []"
| "join_comma [l] = l"
| "join_comma (l # m # ls) = l @ CHR '','' # join_comma (m # ls)"

definition gh_not_installed :: string where
  "gh_not_installed =
     ''gh CLI is not installed. install it from https://cli.github.com/ to create PRs.''"

text \<open>The body of the \<^verbatim>\<open>try\<close> block of git_pr.\<close>

definition pr_try ::
  "host \<Rightarrow> pr_params \<Rightarrow> string \<Rightarrow> string \<Rightarrow> string \<Rightarrow> world \<Rightarrow> (exn + tool_result) \<times> world" where
  "pr_try h params cwd bodyFile body w =
     (case writeFileSync h bodyFile body w of
        (Inl e, w1) \<Rightarrow> (Inl e, w1)
      | (Inr _, w1) \<Rightarrow>
          let labels = (case pr_labels params of None \<Rightarrow> [] | Some ls \<Rightarrow> ls);
              base_err = (if truthy (pr_base params) then validateRef (the (pr_base params))
                          else None)
          in
            (case base_err of
              Some v \<Rightarrow> (Inr (err v), w1)
            | None \<Rightarrow>
                let args = [''pr'', ''create'', ''--title'', pr_title params, ''--body-file'', bodyFile]
                           @ (if truthy (pr_base params) then [''--base'', the (pr_base params)]
                              else [])
                           @ (if pr_draft params then [''--draft''] else [])
                           @ (if labels \<noteq> [] then [''--label'', join_comma labels] else []);
                    ((e, out, errout), w2) = execFile h ''gh'' args cwd w1;
                    result = \<lparr> stdout = out, stderr = errout, exitCode = exit_code_of e \<rparr>
                in if exitCode result \<noteq> 0 then
                     (Inr (err (or_else (stderr result) (stdout result))), w2)
                   else (Inr (text_result (or_else (stdout result) (stderr result))), w2)))"

definition bodyFile_of :: "host \<Rightarrow> string" where
  "bodyFile_of h = join_path (tmpdir h) (''openclaw-pr-body-'' @ randomUUID h @ ''.md'')"

definition git_pr ::
  "host \<Rightarrow> GitOpsConfig \<Rightarrow> pr_params \<Rightarrow> string option \<Rightarrow> world \<Rightarrow> (exn + tool_result) \<times> world" where
  "git_pr h cfg params context_cwd w =
     (let cwd = resolve_cwd h (pr_cwd params) context_cwd;
          (repo, w1) = isGitRepo h cwd w
      in
        if \<not> repo then (Inr (err not_a_repository), w1)
        else
          let ((ghErr, _), w2) = execFile h ''gh'' [''--version''] (process_cwd h) w1 in
          if ghErr \<noteq> NoError then (Inr (err gh_not_installed), w2)
          else if startsWith (pr_title params) ''-'' then
            (Inr (err ''PR title cannot start with a dash''), w2)
          else
            let labels = (case pr_labels params of None \<Rightarrow> [] | Some ls \<Rightarrow> ls) in
            case first_invalid_label labels of
              Some lv \<Rightarrow> (Inr (err lv), w2)
            | None \<Rightarrow>
                let body = (case pr_body params of None \<Rightarrow> [] | Some b \<Rightarrow> b);
                    bodyFile = bodyFile_of h
                in try_finally (pr_try h params cwd bodyFile body) (unlink_quietly h bodyFile) w2)"

section \<open>Auxiliary definitions and example inputs\<close>

text \<open>The truncation marker without its leading line feed.\<close>

definition marker_body :: "nat \<Rightarrow> string \<Rightarrow> string" where
  "marker_body d label = ''... truncated ('' @ show_nat d @ '' more lines of '' @ label @ '')''"


text \<open>
  A host in which the working directory is a repository on branch \<^verbatim>\<open>main\<close>, every
  other child process succeeds silently, and every write and every unlink succeeds.
\<close>

definition example_respond :: "proc list \<Rightarrow> proc \<Rightarrow> exec_error \<times> string \<times> string" where
  "example_respond history p =
     (if proc_args p = [''rev-parse'', ''--is-inside-work-tree''] then
        (NoError, ''true'' @ [CHR 0x0A], [])
      else if proc_args p = [''symbolic-ref'', ''--short'', ''HEAD''] then
        (NoError, ''main'' @ [CHR 0x0A], [])
      else (NoError, [], []))"

definition always_written :: "string \<Rightarrow> write_outcome" where
  "always_written path = Written"

definition never_failing :: "string \<Rightarrow> bool" where
  "never_failing path = False"

definition always_failing :: "string \<Rightarrow> bool" where
  "always_failing path = True"

definition example_host :: host where
  "example_host = \<lparr> respond = example_respond, write_outcome_of = always_written,
                      unlink_fails = never_failing, tmpdir = ''/tmp'',
                      randomUUID = ''1b4e28ba'', process_cwd = ''/repo'' \<rparr>"

definition empty_world :: world where
  "empty_world = \<lparr> procs = [], files = Map.empty \<rparr>"



text \<open>The example host, except that every unlink fails.\<close>

definition stubborn_host :: host where
  "stubborn_host = \<lparr> respond = example_respond, write_outcome_of = always_written,
                       unlink_fails = always_failing, tmpdir = ''/tmp'',
                       randomUUID = ''1b4e28ba'', process_cwd = ''/repo'' \<rparr>"

text \<open>
  A repository whose current branch is named \<^verbatim>\<open>main\<close> followed by a no-break space
  (U+00A0), a name git accepts.
\<close>

definition nbsp_main :: string where
  "nbsp_main = ''main'' @ [CHR 0xC2, CHR 0xA0]"

definition nbsp_respond :: "proc list \<Rightarrow> proc \<Rightarrow> exec_error \<times> string \<times> string" where
  "nbsp_respond history p =
     (if proc_args p = [''rev-parse'', ''--is-inside-work-tree''] then
        (NoError, ''true'' @ [CHR 0x0A], [])
      else if proc_args p = [''symbolic-ref'', ''--short'', ''HEAD''] then
        (NoError, nbsp_main @ [CHR 0x0A], [])
      else (NoError, [], []))"

definition nbsp_host :: host where
  "nbsp_host = \<lparr> respond = nbsp_respond, write_outcome_of = always_written,
                   unlink_fails = never_failing, tmpdir = ''/tmp'',
                   randomUUID = ''1b4e28ba'', process_cwd = ''/repo'' \<rparr>"

definition nbsp_config :: GitOpsConfig where
  "nbsp_config = \<lparr> allowForcePush = False, allowMainCommit = False, defaultRemote = ''origin'',
                    commitPrefix = [], protectedBranches = [nbsp_main] \<rparr>"

text \<open>The default configuration with force push allowed.\<close>

definition force_allowed_config :: GitOpsConfig where
  "force_allowed_config =
     \<lparr> allowForcePush = True, allowMainCommit = False, defaultRemote = ''origin'',
       commitPrefix = [], protectedBranches = [''main'', ''master''] \<rparr>"

definition bot_config :: GitOpsConfig where
  "bot_config = \<lparr> allowForcePush = False, allowMainCommit = True, defaultRemote = ''origin'',
                   commitPrefix = ''[bot] '', protectedBranches = [''main'', ''master''] \<rparr>"

text \<open>A forced push whose branch parameter is the empty string.\<close>

definition push_empty_branch :: push_params where
  "push_empty_branch = \<lparr> pp_cwd = None, pp_remote = None, pp_branch = Some [], pp_force = True,
                          pp_setUpstream = False, pp_dryRun = False \<rparr>"

text \<open>A forced push without a branch parameter.\<close>

definition push_current_forced :: push_params where
  "push_current_forced = \<lparr> pp_cwd = None, pp_remote = None, pp_branch = None, pp_force = True,
                            pp_setUpstream = False, pp_dryRun = False \<rparr>"


definition commit_fix :: commit_params where
  "commit_fix = \<lparr> cp_cwd = None, cp_message = ''fix bug'', cp_files = None, cp_all = False \<rparr>"

text \<open>A pull request whose base is rejected after the body file has been written.\<close>

definition pr_example :: pr_params where
  "pr_example = \<lparr> pr_cwd = None, pr_title = ''Fix bug'', pr_body = Some ''body'',
                   pr_base = Some ''-x'', pr_draft = False, pr_labels = None \<rparr>"

definition stash_pop_negative :: stash_params where
  "stash_pop_negative = \<lparr> sp_cwd = None, sp_action = Some ''pop'', sp_message = None,
                           sp_index = Some (- 5 / 2) \<rparr>"

definition stash_show_fraction :: stash_params where
  "stash_show_fraction = \<lparr> sp_cwd = None, sp_action = Some ''show'', sp_message = None,
                            sp_index = Some (7 / 2) \<rparr>"

text \<open>The index \<^verbatim>\<open>1e21\<close>.\<close>

definition stash_pop_huge :: stash_params where
  "stash_pop_huge = \<lparr> sp_cwd = None, sp_action = Some ''pop'', sp_message = None,
                       sp_index = Some 1000000000000000000000 \<rparr>"

section \<open>Lines\<close>

lemma join_split: "join_nl (split_nl s) = s"
proof (induction s)
  case Nil
  show ?case by simp
next
  case (Cons c cs)
  then show ?case
    by (cases "split_nl cs"; cases "tl (split_nl cs)") (auto split: list.splits)
qed

lemma split_nl_no_nl: "CHR 0x0A \<notin> set l \<Longrightarrow> split_nl (l @ CHR 0x0A # r) = l # split_nl r"
  by (induction l) (auto split: list.splits)

lemma split_nl_line: "CHR 0x0A \<notin> set l \<Longrightarrow> split_nl l = [l]"
  by (induction l) (auto split: list.splits)

lemma split_join:
  "ls \<noteq> [] \<Longrightarrow> list_all (\<lambda>l. CHR 0x0A \<notin> set l) ls \<Longrightarrow> split_nl (join_nl ls) = ls"
  by (induction ls rule: join_nl.induct) (auto simp: split_nl_no_nl split_nl_line)

lemma split_nl_lines: "list_all (\<lambda>l. CHR 0x0A \<notin> set l) (split_nl s)"
  by (induction s) (auto split: list.splits)

lemma join_nl_Cons: "ls \<noteq> [] \<Longrightarrow> join_nl (l # ls) = l @ CHR 0x0A # join_nl ls"
  by (cases ls) auto

lemma join_nl_snoc: "join_nl (ks @ [m]) = concat (map (\<lambda>l. l @ [CHR 0x0A]) ks) @ m"
  by (induction ks) (auto simp: join_nl_Cons)

text \<open>A pushed element that starts with a line feed is an empty line and a line.\<close>

lemma join_nl_blank: "join_nl (ks @ [CHR 0x0A # b]) = join_nl (ks @ [[], b])"
proof -
  have "join_nl (ks @ [[], b]) = join_nl ((ks @ [[]]) @ [b])" by simp
  also have "\<dots> = concat (map (\<lambda>l. l @ [CHR 0x0A]) (ks @ [[]])) @ b" by (rule join_nl_snoc)
  finally show ?thesis by (simp add: join_nl_snoc)
qed

section \<open>Decimal numbers\<close>

lemma show_nat_digits: "set (show_nat n) \<subseteq> set ''0123456789''"
proof (induction n rule: show_nat.induct)
  case (1 n)
  have d: "k < 10 \<Longrightarrow> digit_char k \<in> set ''0123456789''" for k
    unfolding digit_char_def by (rule nth_mem) simp
  show ?case
  proof (cases "n < 10")
    case True
    then show ?thesis using d[of n] by (subst show_nat.simps) simp
  next
    case False
    then show ?thesis using 1 d[of "n mod 10"] by (subst show_nat.simps) simp
  qed
qed

lemma show_nat_no_nl: "CHR 0x0A \<notin> set (show_nat n)"
  using show_nat_digits[of n] by auto

lemma show_nat_ne: "show_nat n \<noteq> []"
  by (subst show_nat.simps) simp

lemma show_nat_2: "show_nat 2 = ''2''"
  by (simp add: show_nat.simps digit_char_def)

lemma digit_char_2: "k < 10 \<Longrightarrow> digit_char k = CHR ''2'' \<Longrightarrow> k = 2"
proof -
  assume k: "k < 10" and h: "digit_char k = CHR ''2''"
  from k have "k = 0 \<or> k = 1 \<or> k = 2 \<or> k = 3 \<or> k = 4 \<or> k = 5 \<or> k = 6 \<or> k = 7
    \<or> k = 8 \<or> k = 9" by arith
  then show ?thesis using h by (elim disjE) (simp_all add: digit_char_def)
qed

lemma show_nat_eq_2: "show_nat d = ''2'' \<Longrightarrow> d = 2"
proof (cases "d < 10")
  case True
  assume "show_nat d = ''2''"
  with True have "digit_char d = CHR ''2''" by (subst (asm) show_nat.simps) simp
  with True show ?thesis by (rule digit_char_2)
next
  case False
  assume h: "show_nat d = ''2''"
  from False have "show_nat d = show_nat (d div 10) @ [digit_char (d mod 10)]"
    by (subst show_nat.simps) simp
  then have "length (show_nat d) = length (show_nat (d div 10)) + 1" by simp
  moreover have "length (show_nat (d div 10)) > 0" using show_nat_ne by simp
  ultimately show ?thesis using h by simp
qed

section \<open>Validators\<close>

lemma startsWith_dash: "startsWith (CHR ''-'' # t) ''-''"
  by (simp add: startsWith_def)

lemma startsWith_dash_iff: "startsWith s ''-'' = (s \<noteq> [] \<and> hd s = CHR ''-'')"
  by (cases s) (auto simp: startsWith_def)

lemma SHELL_META_test_iff: "SHELL_META_test s = (\<exists>c\<in>set s. c \<in> set shell_meta_chars)"
  by (auto simp: SHELL_META_test_def is_shell_meta_def list_ex_iff)

text \<open>
  Claim C3. A string that contains a character of the shell-metacharacter set
  (\<^verbatim>\<open>; & | ` $ ( ) { } ! # ~ < > * ? [ ]\<close>, line feed, carriage return, backslash, quote,
  double quote) is rejected by \<^verbatim>\<open>validateRef\<close>, \<^verbatim>\<open>validateRemoteName\<close>,
  \<^verbatim>\<open>validateLabel\<close> and \<^verbatim>\<open>validateLogFilter\<close>.
\<close>

theorem shell_metacharacters_rejected:
  assumes "c \<in> set s"
    and "c \<in> {CHR '';'', CHR ''&'', CHR ''|'', CHR 0x60, CHR ''$'', CHR ''('', CHR '')'',
               CHR ''{'', CHR ''}'', CHR ''!'', CHR ''#'', CHR ''~'', CHR ''<'', CHR ''>'',
               CHR ''*'', CHR ''?'', CHR ''['', CHR '']'', CHR 0x0A, CHR 0x0D, CHR 0x5C,
               CHR 0x27, CHR 0x22}"
  shows "validateRef s \<noteq> None \<and> validateRemoteName s \<noteq> None \<and> validateLabel s \<noteq> None
         \<and> validateLogFilter s fieldName \<noteq> None"
proof -
  from assms(2) have "c \<in> set shell_meta_chars" by (simp add: shell_meta_chars_def)
  with assms(1) have "SHELL_META_test s" by (auto simp: SHELL_META_test_iff)
  then show ?thesis using assms(1)
    by (auto simp add: validateRef_def validateRemoteName_def validateLabel_def
        validateLogFilter_def)
qed

theorem shell_metacharacters_rejected_witness:
  "CHR '';'' \<in> set ''a;b'' \<and> validateRef ''a;b'' \<noteq> None \<and> validateRemoteName ''a;b'' \<noteq> None
   \<and> validateLabel ''a;b'' \<noteq> None \<and> validateLogFilter ''a;b'' ''author'' \<noteq> None"
  using shell_metacharacters_rejected [of "CHR '';''" "''a;b''" "''author''"] by simp

text \<open>
  Claim C4. A string that begins with \<^verbatim>\<open>-\<close> is rejected by every validator, and
  \<^verbatim>\<open>validateFilePath\<close> accepts every non-empty string that does not begin with
  \<^verbatim>\<open>-\<close>, whatever else it contains.
\<close>

theorem dash_prefix_rejected:
  "validateBranchName (CHR ''-'' # t) \<noteq> None \<and> validateRef (CHR ''-'' # t) \<noteq> None
   \<and> validateRemoteName (CHR ''-'' # t) \<noteq> None
   \<and> validateLogFilter (CHR ''-'' # t) fieldName \<noteq> None
   \<and> validateLabel (CHR ''-'' # t) \<noteq> None \<and> validateFilePath (CHR ''-'' # t) \<noteq> None
   \<and> (p \<noteq> [] \<and> hd p \<noteq> CHR ''-'' \<longrightarrow> validateFilePath p = None)"
  by (simp add: validateBranchName_def validateRef_def validateRemoteName_def
      validateLogFilter_def validateLabel_def validateFilePath_def startsWith_dash
      startsWith_dash_iff Let_def)

theorem dash_prefix_rejected_witness:
  "validateBranchName ''-rf'' \<noteq> None \<and> validateRef ''-rf'' \<noteq> None
   \<and> validateRemoteName ''-rf'' \<noteq> None \<and> validateLogFilter ''-rf'' ''grep'' \<noteq> None
   \<and> validateLabel ''-rf'' \<noteq> None \<and> validateFilePath ''-rf'' \<noteq> None
   \<and> ''my file; $(x) *.txt'' \<noteq> [] \<and> hd ''my file; $(x) *.txt'' \<noteq> CHR ''-''
   \<and> validateFilePath ''my file; $(x) *.txt'' = None"
  using dash_prefix_rejected [of "''rf''" "''grep''" "''my file; $(x) *.txt''"] by simp

section \<open>The allowlist\<close>

lemma distinct_allowed: "distinct ALLOWED_SUBCOMMANDS"
  by (simp add: ALLOWED_SUBCOMMANDS_def)

lemma card_allowed: "card (set ALLOWED_SUBCOMMANDS) = 21"
  using distinct_card[OF distinct_allowed] by (simp add: ALLOWED_SUBCOMMANDS_def)

text \<open>
  Claim C5, as stated, speaks of a 20-element allowlist; the set the source builds, and
  the claim enumerates, has 21 elements.
\<close>

theorem allowlist_size_counterexample: "card (set ALLOWED_SUBCOMMANDS) \<noteq> 20"
  by (simp add: card_allowed)

text \<open>
  Claim C5, amended. The allowlist has 21 elements. For an argument vector whose first
  element is absent, empty or not in the allowlist, \<^verbatim>\<open>runGit\<close> resolves with exit
  code 1 and a message that starts with "blocked", and the world is unchanged: no child
  process is created.
\<close>

theorem runGit_blocked:
  assumes "args = [] \<or> hd args = [] \<or> hd args \<notin>
     {''status'', ''diff'', ''log'', ''branch'', ''add'', ''commit'', ''push'', ''pull'',
      ''stash'', ''blame'', ''rev-parse'', ''symbolic-ref'', ''remote'', ''checkout'',
      ''switch'', ''fetch'', ''merge'', ''rebase'', ''tag'', ''show'', ''config''}"
  shows "card (set ALLOWED_SUBCOMMANDS) = 21
     \<and> exitCode (fst (runGit h args cwd w)) = 1
     \<and> startsWith (stderr (fst (runGit h args cwd w))) ''blocked''
     \<and> snd (runGit h args cwd w) = w"
proof -
  have s: "set ALLOWED_SUBCOMMANDS =
     {''status'', ''diff'', ''log'', ''branch'', ''add'', ''commit'', ''push'', ''pull'',
      ''stash'', ''blame'', ''rev-parse'', ''symbolic-ref'', ''remote'', ''checkout'',
      ''switch'', ''fetch'', ''merge'', ''rebase'', ''tag'', ''show'', ''config''}"
    by (simp add: ALLOWED_SUBCOMMANDS_def)
  show ?thesis
  proof (cases args)
    case Nil
    then show ?thesis by (simp add: runGit_def blocked_def startsWith_def card_allowed)
  next
    case (Cons a as)
    with assms have "a = [] \<or> a \<notin> set ALLOWED_SUBCOMMANDS" unfolding s by simp
    with Cons show ?thesis
      by (auto simp add: runGit_def blocked_def startsWith_def card_allowed)
  qed
qed

theorem runGit_blocked_witness:
  "exitCode (fst (runGit example_host [''clone'', ''x''] ''/repo'' empty_world)) = 1
   \<and> startsWith (stderr (fst (runGit example_host [''clone'', ''x''] ''/repo'' empty_world)))
        ''blocked''
   \<and> snd (runGit example_host [''clone'', ''x''] ''/repo'' empty_world) = empty_world"
  using runGit_blocked [of "[''clone'', ''x'']" example_host "''/repo''" empty_world] by simp

section \<open>Truncation\<close>

lemma marker_body_no_nl: "CHR 0x0A \<notin> set label \<Longrightarrow> CHR 0x0A \<notin> set (marker_body d label)"
  by (simp add: marker_body_def show_nat_no_nl)

lemma truncation_marker_body: "truncation_marker d label = CHR 0x0A # marker_body d label"
  by (simp add: truncation_marker_def marker_body_def)

lemma truncateOutput_short: "length (split_nl x) \<le> n \<Longrightarrow> truncateOutput x n label = x"
  by (simp add: truncateOutput_def)

lemma truncateOutput_long:
  "n < length (split_nl x) \<Longrightarrow>
   truncateOutput x n label
     = join_nl (take n (split_nl x) @ [[], marker_body (length (split_nl x) - n) label])"
  by (simp add: truncateOutput_def Let_def truncation_marker_body join_nl_blank)

lemma split_truncateOutput_long:
  assumes "n < length (split_nl x)" and "CHR 0x0A \<notin> set label"
  shows "split_nl (truncateOutput x n label)
     = take n (split_nl x) @ [[], marker_body (length (split_nl x) - n) label]"
proof -
  have "list_all (\<lambda>l. CHR 0x0A \<notin> set l) (take n (split_nl x))"
    using split_nl_lines[of x] by (auto simp: list_all_iff dest: in_set_takeD)
  then have "list_all (\<lambda>l. CHR 0x0A \<notin> set l)
      (take n (split_nl x) @ [[], marker_body (length (split_nl x) - n) label])"
    using assms(2) by (simp add: marker_body_no_nl)
  then show ?thesis using assms(1) by (simp add: truncateOutput_long split_join)
qed

text \<open>A truncated text has two lines more than the limit, so it is truncated again.\<close>

lemma truncateOutput_twice:
  assumes "n < length (split_nl x)" and "CHR 0x0A \<notin> set label"
  shows "truncateOutput (truncateOutput x n label) n label
     = join_nl (take n (split_nl x) @ [[], marker_body 2 label])"
proof -
  let ?y = "truncateOutput x n label"
  have s: "split_nl ?y = take n (split_nl x) @ [[], marker_body (length (split_nl x) - n) label]"
    using assms by (rule split_truncateOutput_long)
  have l: "length (split_nl ?y) = n + 2" using assms(1) by (simp add: s)
  then have "n < length (split_nl ?y)" by simp
  then have "truncateOutput ?y n label
      = join_nl (take n (split_nl ?y) @ [[], marker_body (length (split_nl ?y) - n) label])"
    by (rule truncateOutput_long)
  also have "take n (split_nl ?y) = take n (split_nl x)" using assms(1) by (simp add: s)
  finally show ?thesis by (simp add: l)
qed

lemma join_nl_marker_inj:
  "join_nl (ks @ [[], marker_body a label]) = join_nl (ks @ [[], marker_body b label]) \<Longrightarrow>
   show_nat a = show_nat b"
proof -
  assume "join_nl (ks @ [[], marker_body a label]) = join_nl (ks @ [[], marker_body b label])"
  then have "join_nl ((ks @ [[]]) @ [marker_body a label])
      = join_nl ((ks @ [[]]) @ [marker_body b label])"
    by simp
  then have "marker_body a label = marker_body b label"
    unfolding join_nl_snoc by simp
  then show ?thesis by (simp add: marker_body_def)
qed

text \<open>
  Claim C7, as stated, fails: a text of four lines truncated to one line drops three
  lines; the result has three lines, and truncating it again drops two.
\<close>

theorem truncateOutput_idempotent_counterexample:
  "truncateOutput (truncateOutput [CHR ''a'', CHR 0x0A, CHR ''b'', CHR 0x0A, CHR ''c'', CHR 0x0A,
       CHR ''d''] 1 ''output'') 1 ''output''
   \<noteq> truncateOutput [CHR ''a'', CHR 0x0A, CHR ''b'', CHR 0x0A, CHR ''c'', CHR 0x0A, CHR ''d'']
       1 ''output''"
  by (simp add: truncateOutput_def truncation_marker_def show_nat.simps digit_char_def)

text \<open>
  Claim C7, amended. For a label without a line feed, truncating twice gives the same as
  truncating once exactly when the text has at most \<open>n\<close> lines (truncation is then a no-op)
  or exactly \<open>n + 2\<close> lines.
\<close>

theorem truncateOutput_idempotent_iff:
  assumes "CHR 0x0A \<notin> set label"
  shows "(truncateOutput (truncateOutput x n label) n label = truncateOutput x n label)
     = (length (split_nl x) \<le> n \<or> length (split_nl x) = n + 2)"
proof (cases "length (split_nl x) \<le> n")
  case True
  then show ?thesis by (simp add: truncateOutput_short)
next
  case False
  then have long: "n < length (split_nl x)" by simp
  let ?d = "length (split_nl x) - n"
  have t1: "truncateOutput x n label = join_nl (take n (split_nl x) @ [[], marker_body ?d label])"
    using long by (rule truncateOutput_long)
  have t2: "truncateOutput (truncateOutput x n label) n label
      = join_nl (take n (split_nl x) @ [[], marker_body 2 label])"
    using long assms by (rule truncateOutput_twice)
  show ?thesis
  proof
    assume eq: "truncateOutput (truncateOutput x n label) n label = truncateOutput x n label"
    have "join_nl (take n (split_nl x) @ [[], marker_body 2 label])
        = truncateOutput (truncateOutput x n label) n label" by (rule t2[symmetric])
    also have "\<dots> = truncateOutput x n label" by (rule eq)
    also have "\<dots> = join_nl (take n (split_nl x) @ [[], marker_body ?d label])" by (rule t1)
    finally have "show_nat 2 = show_nat ?d" by (rule join_nl_marker_inj)
    then have "?d = 2" using show_nat_eq_2[of ?d] by (simp add: show_nat_2)
    then show "length (split_nl x) \<le> n \<or> length (split_nl x) = n + 2" using long by simp
  next
    assume "length (split_nl x) \<le> n \<or> length (split_nl x) = n + 2"
    with False have "?d = 2" by simp
    then show "truncateOutput (truncateOutput x n label) n label = truncateOutput x n label"
      using t1 t2 by simp
  qed
qed

theorem truncateOutput_idempotent_iff_witness:
  "CHR 0x0A \<notin> set ''output''
   \<and> (truncateOutput (truncateOutput [CHR ''a'', CHR 0x0A, CHR ''b'', CHR 0x0A, CHR ''c''] 1
         ''output'') 1 ''output''
      = truncateOutput [CHR ''a'', CHR 0x0A, CHR ''b'', CHR 0x0A, CHR ''c''] 1 ''output'')"
  using truncateOutput_idempotent_iff
    [of "''output''" "[CHR ''a'', CHR 0x0A, CHR ''b'', CHR 0x0A, CHR ''c'']" 1]
  by simp

text \<open>
  Claim C8, as stated, fails on 250 lines \<^verbatim>\<open>x\<close>: the result is neither the first 200
  lines followed by the one line "\<dots> truncated (50 more lines of log)" with the single
  character U+2026, nor the same with three full stops. The marker is pushed with a line
  feed in front, which makes an empty line between the kept lines and the marker.
\<close>

theorem truncate_250_log_lines_counterexample:
  "truncateOutput (join_nl (replicate 250 ''x'')) MAX_LOG_ENTRIES ''log''
     \<noteq> join_nl (replicate 200 ''x''
          @ [[CHR 0xE2, CHR 0x80, CHR 0xA6] @ '' truncated (50 more lines of log)''])
   \<and> truncateOutput (join_nl (replicate 250 ''x'')) MAX_LOG_ENTRIES ''log''
     \<noteq> join_nl (replicate 200 ''x'' @ [''... truncated (50 more lines of log)''])"
  by code_simp

text \<open>
  Claim C8, amended. 250 lines truncated with the limit of 200 and the label "log" give
  the first 200 lines, then an empty line, then the line
  "... truncated (50 more lines of log)", written with three full stops.
\<close>

theorem truncate_250_log_lines:
  assumes "length ls = 250" and "list_all (\<lambda>l. CHR 0x0A \<notin> set l) ls"
  shows "truncateOutput (join_nl ls) MAX_LOG_ENTRIES ''log''
     = join_nl (take 200 ls @ [[], ''... truncated (50 more lines of log)''])"
proof -
  from assms(1) have ne: "ls \<noteq> []" by auto
  have s: "split_nl (join_nl ls) = ls" using ne assms(2) by (rule split_join)
  have m: "marker_body 50 ''log'' = ''... truncated (50 more lines of log)''"
    by (simp add: marker_body_def show_nat.simps digit_char_def)
  have "200 < length (split_nl (join_nl ls))" using assms(1) by (simp add: s)
  then have "truncateOutput (join_nl ls) 200 ''log''
      = join_nl (take 200 (split_nl (join_nl ls))
          @ [[], marker_body (length (split_nl (join_nl ls)) - 200) ''log''])"
    by (rule truncateOutput_long)
  then show ?thesis using assms(1) by (simp add: s m MAX_LOG_ENTRIES_def)
qed

theorem truncate_250_log_lines_witness:
  "length (replicate 250 ''x'') = 250
   \<and> truncateOutput (join_nl (replicate 250 ''x'')) MAX_LOG_ENTRIES ''log''
     = join_nl (take 200 (replicate 250 ''x'') @ [[], ''... truncated (50 more lines of log)''])"
  using truncate_250_log_lines [of "replicate 250 ''x''"] by (simp add: list_all_iff)

section \<open>Child processes and files of the helpers\<close>

lemma runGit_world:
  "snd (runGit h args cwd w) = w
   \<or> snd (runGit h args cwd w) = w\<lparr>procs := procs w @ [Proc ''git'' args cwd]\<rparr>"
  by (auto simp: runGit_def execFile_def Let_def split: list.splits prod.splits)

lemma runGit_allowed:
  "args \<noteq> [] \<Longrightarrow> hd args \<noteq> [] \<Longrightarrow> hd args \<in> set ALLOWED_SUBCOMMANDS \<Longrightarrow>
   snd (runGit h args cwd w) = w\<lparr>procs := procs w @ [Proc ''git'' args cwd]\<rparr>"
  by (cases args) (auto simp: runGit_def execFile_def Let_def split: prod.splits)

lemma runGit_files: "files (snd (runGit h args cwd w)) = files w"
  using runGit_world[of h args cwd w] by auto

lemma execFile_files: "files (snd (execFile h exe args cwd w)) = files w"
  by (simp add: execFile_def Let_def)

lemma isGitRepo_procs:
  "procs (snd (isGitRepo h cwd w))
     = procs w @ [Proc ''git'' [''rev-parse'', ''--is-inside-work-tree''] cwd]"
  by (simp add: isGitRepo_def split_def Let_def runGit_allowed ALLOWED_SUBCOMMANDS_def)

lemma isGitRepo_files: "files (snd (isGitRepo h cwd w)) = files w"
  by (simp add: isGitRepo_def split_def Let_def runGit_files)

lemma getCurrentBranch_procs:
  "\<exists>ps. procs (snd (getCurrentBranch h cwd w)) = procs w @ ps \<and> list_all probe ps"
  by (simp add: getCurrentBranch_def split_def Let_def runGit_allowed ALLOWED_SUBCOMMANDS_def
      probe_def)

lemma getCurrentBranch_files: "files (snd (getCurrentBranch h cwd w)) = files w"
  by (simp add: getCurrentBranch_def split_def Let_def runGit_files)

lemma spawned_append: "procs w' = procs w @ xs \<Longrightarrow> spawned w w' = xs"
  by (simp add: spawned_def)

lemma is_error_err: "is_error (err m)"
  by (simp add: is_error_def err_def text_result_def result_text_def startsWith_def)

lemma spawned_isGitRepo:
  "spawned w (snd (isGitRepo h cwd w))
     = [Proc ''git'' [''rev-parse'', ''--is-inside-work-tree''] cwd]"
  by (rule spawned_append) (rule isGitRepo_procs)

lemma probes_isGitRepo: "list_all probe (spawned w (snd (isGitRepo h cwd w)))"
  by (simp add: spawned_isGitRepo probe_def)

lemma probes_getCurrentBranch:
  "list_all probe (spawned w (snd (getCurrentBranch h cwd (snd (isGitRepo h cwd w)))))"
proof -
  obtain ps where ps: "procs (snd (getCurrentBranch h cwd (snd (isGitRepo h cwd w))))
      = procs (snd (isGitRepo h cwd w)) @ ps" and pr: "list_all probe ps"
    using getCurrentBranch_procs by blast
  have "spawned w (snd (getCurrentBranch h cwd (snd (isGitRepo h cwd w))))
      = Proc ''git'' [''rev-parse'', ''--is-inside-work-tree''] cwd # ps"
    by (rule spawned_append) (simp add: ps isGitRepo_procs)
  then show ?thesis using pr by (simp add: probe_def)
qed








section \<open>Substrings and names\<close>

lemma startsWith_includes: "startsWith s p \<Longrightarrow> str_includes s p"
  by (cases s) (auto simp: startsWith_def)

lemma str_includes_prefix: "str_includes (p @ c) p"
  by (rule startsWith_includes) (simp add: startsWith_def)

lemma str_includes_append: "str_includes s p \<Longrightarrow> str_includes (a @ s) p"
  by (induction a) auto

lemma str_includes_mid: "str_includes (a @ p @ c) p"
  by (rule str_includes_append) (rule str_includes_prefix)


lemma main_commit_blocked_names_flag: "str_includes (main_commit_blocked b) ''allowMainCommit''"
proof -
  have "main_commit_blocked b
      = (''direct commits to '' @ quoted b @ '' are blocked. set '') @ ''allowMainCommit''
        @ '': true in config to override.''"
    by (simp add: main_commit_blocked_def)
  then show ?thesis
    using str_includes_mid[of "''direct commits to '' @ quoted b @ '' are blocked. set ''"
        "''allowMainCommit''" "'': true in config to override.''"]
    by simp
qed







section \<open>The example hosts\<close>

lemma example_host_simps:
  "respond example_host = example_respond"
  "write_outcome_of example_host = always_written"
  "unlink_fails example_host = never_failing"
  "tmpdir example_host = ''/tmp''"
  "randomUUID example_host = ''1b4e28ba''"
  "process_cwd example_host = ''/repo''"
  by (simp_all add: example_host_def)

lemma stubborn_host_simps:
  "respond stubborn_host = example_respond"
  "write_outcome_of stubborn_host = always_written"
  "unlink_fails stubborn_host = always_failing"
  "tmpdir stubborn_host = ''/tmp''"
  "randomUUID stubborn_host = ''1b4e28ba''"
  "process_cwd stubborn_host = ''/repo''"
  by (simp_all add: stubborn_host_def)

lemma nbsp_host_simps:
  "respond nbsp_host = nbsp_respond"
  "write_outcome_of nbsp_host = always_written"
  "unlink_fails nbsp_host = never_failing"
  "tmpdir nbsp_host = ''/tmp''"
  "randomUUID nbsp_host = ''1b4e28ba''"
  "process_cwd nbsp_host = ''/repo''"
  by (simp_all add: nbsp_host_def)

lemma empty_world_simps: "procs empty_world = []" "files empty_world = Map.empty"
  by (simp_all add: empty_world_def)

lemma spawned_empty: "spawned empty_world w = procs w"
  by (simp add: spawned_def empty_world_simps)

lemma repo_cwd: "process_cwd h = ''/repo'' \<Longrightarrow> resolve_cwd h None None = ''/repo''"
  by (simp add: resolve_cwd_def truthy_def)

lemma example_cwd: "resolve_cwd example_host None None = ''/repo''"
  by (simp add: repo_cwd example_host_simps)

lemma trim_true: "trim [CHR ''t'', CHR ''r'', CHR ''u'', CHR ''e'', CHR 0x0A] = ''true''"
  by code_simp

lemma trim_main: "trim [CHR ''m'', CHR ''a'', CHR ''i'', CHR ''n'', CHR 0x0A] = ''main''"
  by code_simp

lemma trim_nbsp_main:
  "trim [CHR ''m'', CHR ''a'', CHR ''i'', CHR ''n'', CHR 0xC2, CHR 0xA0, CHR 0x0A] = ''main''"
  by code_simp

lemma on_main_isGitRepo:
  assumes "respond h = example_respond"
  shows "isGitRepo h ''/repo'' empty_world
     = (True, \<lparr> procs = [Proc ''git'' [''rev-parse'', ''--is-inside-work-tree''] ''/repo''],
                files = Map.empty \<rparr>)"
  by (simp add: isGitRepo_def runGit_def ALLOWED_SUBCOMMANDS_def execFile_def assms
      example_respond_def empty_world_def exit_code_of_def trim_true Let_def)

lemma on_main_getCurrentBranch:
  assumes "respond h = example_respond"
  shows "getCurrentBranch h ''/repo''
      \<lparr> procs = [Proc ''git'' [''rev-parse'', ''--is-inside-work-tree''] ''/repo''],
        files = Map.empty \<rparr>
     = (Some ''main'',
        \<lparr> procs = [Proc ''git'' [''rev-parse'', ''--is-inside-work-tree''] ''/repo'',
                    Proc ''git'' [''symbolic-ref'', ''--short'', ''HEAD''] ''/repo''],
          files = Map.empty \<rparr>)"
  by (simp add: getCurrentBranch_def runGit_def ALLOWED_SUBCOMMANDS_def execFile_def assms
      example_respond_def exit_code_of_def trim_main Let_def)

lemma example_isGitRepo:
  "isGitRepo example_host ''/repo'' empty_world
     = (True, \<lparr> procs = [Proc ''git'' [''rev-parse'', ''--is-inside-work-tree''] ''/repo''],
                files = Map.empty \<rparr>)"
  by (rule on_main_isGitRepo) (rule example_host_simps)

lemma example_getCurrentBranch:
  "getCurrentBranch example_host ''/repo''
      \<lparr> procs = [Proc ''git'' [''rev-parse'', ''--is-inside-work-tree''] ''/repo''],
        files = Map.empty \<rparr>
     = (Some ''main'',
        \<lparr> procs = [Proc ''git'' [''rev-parse'', ''--is-inside-work-tree''] ''/repo'',
                    Proc ''git'' [''symbolic-ref'', ''--short'', ''HEAD''] ''/repo''],
          files = Map.empty \<rparr>)"
  by (rule on_main_getCurrentBranch) (rule example_host_simps)

lemma nbsp_isGitRepo:
  "isGitRepo nbsp_host ''/repo'' empty_world
     = (True, \<lparr> procs = [Proc ''git'' [''rev-parse'', ''--is-inside-work-tree''] ''/repo''],
                files = Map.empty \<rparr>)"
  by (simp add: isGitRepo_def runGit_def ALLOWED_SUBCOMMANDS_def execFile_def nbsp_host_simps
      nbsp_respond_def empty_world_def exit_code_of_def trim_true Let_def)

lemma nbsp_getCurrentBranch:
  "getCurrentBranch nbsp_host ''/repo''
      \<lparr> procs = [Proc ''git'' [''rev-parse'', ''--is-inside-work-tree''] ''/repo''],
        files = Map.empty \<rparr>
     = (Some ''main'',
        \<lparr> procs = [Proc ''git'' [''rev-parse'', ''--is-inside-work-tree''] ''/repo'',
                    Proc ''git'' [''symbolic-ref'', ''--short'', ''HEAD''] ''/repo''],
          files = Map.empty \<rparr>)"
  by (simp add: getCurrentBranch_def runGit_def ALLOWED_SUBCOMMANDS_def execFile_def
      nbsp_host_simps nbsp_respond_def nbsp_main_def exit_code_of_def trim_nbsp_main Let_def)

lemma validateRemoteName_origin: "validateRemoteName ''origin'' = None"
  by (simp add: validateRemoteName_def startsWith_def SHELL_META_test_def is_shell_meta_def
      shell_meta_chars_def)


lemma validateBranchName_main: "validateBranchName ''main'' = None"
  by (simp add: validateBranchName_def startsWith_def endsWith_def BRANCH_RE_test_def
      branch_char_def)


lemma push_empty_branch_simps:
  "pp_cwd push_empty_branch = None" "pp_remote push_empty_branch = None"
  "pp_branch push_empty_branch = Some []" "pp_force push_empty_branch"
  "\<not> pp_setUpstream push_empty_branch" "\<not> pp_dryRun push_empty_branch"
  by (simp_all add: push_empty_branch_def)

lemma push_current_forced_simps:
  "pp_cwd push_current_forced = None" "pp_remote push_current_forced = None"
  "pp_branch push_current_forced = None" "pp_force push_current_forced"
  "\<not> pp_setUpstream push_current_forced" "\<not> pp_dryRun push_current_forced"
  by (simp_all add: push_current_forced_def)


lemma commit_fix_simps:
  "cp_cwd commit_fix = None" "cp_message commit_fix = ''fix bug''" "cp_files commit_fix = None"
  "\<not> cp_all commit_fix"
  by (simp_all add: commit_fix_def)

lemma example_commit_cwd: "resolve_cwd example_host (cp_cwd commit_fix) None = ''/repo''"
  by (simp add: commit_fix_simps example_cwd)

lemma pr_example_simps:
  "pr_cwd pr_example = None" "pr_title pr_example = ''Fix bug''"
  "pr_body pr_example = Some ''body''" "pr_base pr_example = Some ''-x''"
  "\<not> pr_draft pr_example" "pr_labels pr_example = None"
  by (simp_all add: pr_example_def)

lemma stash_pop_negative_simps:
  "sp_cwd stash_pop_negative = None" "sp_action stash_pop_negative = Some ''pop''"
  "sp_index stash_pop_negative = Some (- 5 / 2)"
  by (simp_all add: stash_pop_negative_def)

lemma stash_show_fraction_simps:
  "sp_cwd stash_show_fraction = None" "sp_action stash_show_fraction = Some ''show''"
  "sp_index stash_show_fraction = Some (7 / 2)"
  by (simp_all add: stash_show_fraction_def)

lemma stash_pop_huge_simps:
  "sp_cwd stash_pop_huge = None" "sp_action stash_pop_huge = Some ''pop''"
  "sp_index stash_pop_huge = Some 1000000000000000000000"
  by (simp_all add: stash_pop_huge_def)

section \<open>Protected branches\<close>

lemma git_branch_delete_protected:
  assumes "bp_action ps = Some ''delete''" and "bp_name ps = Some b"
    and "b \<in> set (protectedBranches cfg)"
  shows "is_error (fst (git_branch h cfg ps ctx w))
     \<and> list_all probe (spawned w (snd (git_branch h cfg ps ctx w)))"
  using assms
  by (auto simp: git_branch_def Let_def split_def is_error_err probes_isGitRepo isProtected_def
      split: option.splits)

lemma git_push_force_protected:
  assumes "pp_force ps" and "b \<in> set (protectedBranches cfg)" and "b \<noteq> []"
    and "pp_branch ps = Some b
       \<or> (pp_branch ps = None
          \<and> fst (getCurrentBranch h (resolve_cwd h (pp_cwd ps) ctx)
                 (snd (isGitRepo h (resolve_cwd h (pp_cwd ps) ctx) w))) = Some b)"
  shows "is_error (fst (git_push h cfg ps ctx w))
     \<and> list_all probe (spawned w (snd (git_push h cfg ps ctx w)))"
  using assms
  by (auto simp: git_push_def Let_def split_def is_error_err probes_isGitRepo isProtected_def
      probes_getCurrentBranch truthy_def
      split: option.splits)

lemma empty_push_run:
  "git_push example_host force_allowed_config push_empty_branch None empty_world
  = (text_result ''pushed successfully'',
     \<lparr> procs = [Proc ''git'' [''rev-parse'', ''--is-inside-work-tree''] ''/repo'',
                 Proc ''git'' [''push'', ''--force-with-lease'', ''origin''] ''/repo''],
       files = Map.empty \<rparr>)"
  by (simp add: git_push_def example_cwd example_isGitRepo push_empty_branch_simps
      force_allowed_config_def validateRemoteName_origin truthy_def
      push_args_def runGit_def ALLOWED_SUBCOMMANDS_def execFile_def example_host_simps
      example_respond_def exit_code_of_def or_else_def Let_def)

lemma current_push_run:
  "git_push example_host force_allowed_config push_current_forced None empty_world
  = (err (force_push_protected ''main''),
     \<lparr> procs = [Proc ''git'' [''rev-parse'', ''--is-inside-work-tree''] ''/repo'',
                 Proc ''git'' [''symbolic-ref'', ''--short'', ''HEAD''] ''/repo''],
       files = Map.empty \<rparr>)"
  by (simp add: git_push_def example_cwd example_isGitRepo example_getCurrentBranch
      push_current_forced_simps force_allowed_config_def validateRemoteName_origin truthy_def
      strip_detached_def startsWith_def validateBranchName_main isProtected_def Let_def)

text \<open>
  Claim C1 does not hold of git_push. The configuration is the default one with force push
  allowed, so \<^verbatim>\<open>main\<close> is protected, and \<^verbatim>\<open>main\<close> is the branch checked out. A
  forced push whose branch parameter is the empty string is not denied: the empty string
  keeps \<^verbatim>\<open>??\<close> from asking for the current branch, and, being falsy, it is looked at
  neither by the name check nor by the protected-branch check, so that
  \<^verbatim>\<open>git push --force-with-lease origin\<close> runs and force-pushes the protected branch. The
  same request without the branch parameter is denied, with the message that a force push to
  a protected branch is always blocked, after the two read-only probes.
\<close>

theorem protected_branch_bypass:
  "''main'' \<in> set (protectedBranches force_allowed_config)
   \<and> fst (getCurrentBranch example_host ''/repo''
            (snd (isGitRepo example_host ''/repo'' empty_world))) = Some ''main''
   \<and> pp_force push_empty_branch \<and> pp_branch push_empty_branch = Some []
   \<and> fst (git_push example_host force_allowed_config push_empty_branch None empty_world)
      = text_result ''pushed successfully''
   \<and> spawned empty_world
        (snd (git_push example_host force_allowed_config push_empty_branch None empty_world))
      = [Proc ''git'' [''rev-parse'', ''--is-inside-work-tree''] ''/repo'',
         Proc ''git'' [''push'', ''--force-with-lease'', ''origin''] ''/repo'']
   \<and> pp_force push_current_forced \<and> pp_branch push_current_forced = None
   \<and> fst (git_push example_host force_allowed_config push_current_forced None empty_world)
      = err (force_push_protected ''main'')
   \<and> spawned empty_world
        (snd (git_push example_host force_allowed_config push_current_forced None empty_world))
      = [Proc ''git'' [''rev-parse'', ''--is-inside-work-tree''] ''/repo'',
         Proc ''git'' [''symbolic-ref'', ''--short'', ''HEAD''] ''/repo'']"
  unfolding empty_push_run current_push_run
  by (simp add: spawned_empty force_allowed_config_def push_empty_branch_simps
      push_current_forced_simps example_isGitRepo example_getCurrentBranch)

section \<open>Forced pushes\<close>









section \<open>Commits to a protected branch\<close>

text \<open>
  What git_commit does with the branch name it reads. In a repository where
  \<^verbatim>\<open>getCurrentBranch\<close> returns the non-empty name \<open>b\<close>: if \<open>b\<close> is protected and
  \<^verbatim>\<open>allowMainCommit\<close> is false, git_commit is denied with the reason that names
  \<^verbatim>\<open>allowMainCommit\<close>, and the only child processes are the read-only probes;
  otherwise git_commit goes on to stage and commit.
\<close>

lemma git_commit_on_read_branch:
  assumes "fst (isGitRepo h (resolve_cwd h (cp_cwd ps) ctx) w)"
    and "fst (getCurrentBranch h (resolve_cwd h (cp_cwd ps) ctx)
               (snd (isGitRepo h (resolve_cwd h (cp_cwd ps) ctx) w))) = Some b"
    and "b \<noteq> []"
  shows "(b \<in> set (protectedBranches cfg) \<and> \<not> allowMainCommit cfg \<longrightarrow>
            fst (git_commit h cfg ps ctx w) = Inr (err (main_commit_blocked b))
            \<and> str_includes (main_commit_blocked b) ''allowMainCommit''
            \<and> list_all probe (spawned w (snd (git_commit h cfg ps ctx w))))
       \<and> (allowMainCommit cfg \<or> b \<notin> set (protectedBranches cfg) \<longrightarrow>
            git_commit h cfg ps ctx w
            = stage_and_commit h cfg ps (resolve_cwd h (cp_cwd ps) ctx)
                (snd (getCurrentBranch h (resolve_cwd h (cp_cwd ps) ctx)
                       (snd (isGitRepo h (resolve_cwd h (cp_cwd ps) ctx) w)))))"
  using assms
  by (auto simp: git_commit_def Let_def split_def truthy_def isProtected_def
      main_commit_blocked_names_flag probes_getCurrentBranch)

lemma commit_run:
  assumes "respond h = nbsp_respond \<or> respond h = example_respond"
    and "write_outcome_of h = always_written" and "unlink_fails h = never_failing"
    and "tmpdir h = ''/tmp''" and "randomUUID h = ''1b4e28ba''"
    and "commitPrefix cfg = pre"
  shows "stage_and_commit h cfg commit_fix ''/repo''
      \<lparr> procs = [Proc ''git'' [''rev-parse'', ''--is-inside-work-tree''] ''/repo'',
                  Proc ''git'' [''symbolic-ref'', ''--short'', ''HEAD''] ''/repo''],
        files = Map.empty \<rparr>
   = (Inr (text_result []),
      \<lparr> procs = [Proc ''git'' [''rev-parse'', ''--is-inside-work-tree''] ''/repo'',
                  Proc ''git'' [''symbolic-ref'', ''--short'', ''HEAD''] ''/repo'',
                  Proc ''git'' [''commit'', ''--file'', ''/tmp/openclaw-git-msg-1b4e28ba.txt'']
                    ''/repo''],
        files = Map.empty \<rparr>)"
  using assms(1)
  by (auto simp: stage_and_commit_def commit_fix_simps assms(2-6) msgFile_of_def join_path_def
      try_finally_def commit_try_def writeFileSync_def always_written_def unlink_quietly_def
      never_failing_def runGit_def ALLOWED_SUBCOMMANDS_def execFile_def
      example_respond_def nbsp_respond_def exit_code_of_def Let_def)

lemma nbsp_commit_run:
  "git_commit nbsp_host nbsp_config commit_fix None empty_world
   = (Inr (text_result []),
      \<lparr> procs = [Proc ''git'' [''rev-parse'', ''--is-inside-work-tree''] ''/repo'',
                  Proc ''git'' [''symbolic-ref'', ''--short'', ''HEAD''] ''/repo'',
                  Proc ''git'' [''commit'', ''--file'', ''/tmp/openclaw-git-msg-1b4e28ba.txt'']
                    ''/repo''],
        files = Map.empty \<rparr>)"
proof -
  have p: "\<not> isProtected nbsp_config ''main''"
    by (simp add: isProtected_def nbsp_config_def nbsp_main_def)
  have c: "stage_and_commit nbsp_host nbsp_config commit_fix ''/repo''
      \<lparr> procs = [Proc ''git'' [''rev-parse'', ''--is-inside-work-tree''] ''/repo'',
                  Proc ''git'' [''symbolic-ref'', ''--short'', ''HEAD''] ''/repo''],
        files = Map.empty \<rparr>
   = (Inr (text_result []),
      \<lparr> procs = [Proc ''git'' [''rev-parse'', ''--is-inside-work-tree''] ''/repo'',
                  Proc ''git'' [''symbolic-ref'', ''--short'', ''HEAD''] ''/repo'',
                  Proc ''git'' [''commit'', ''--file'', ''/tmp/openclaw-git-msg-1b4e28ba.txt'']
                    ''/repo''],
        files = Map.empty \<rparr>)"
    by (rule commit_run) (simp_all add: nbsp_host_simps)
  show ?thesis
    by (simp add: git_commit_def commit_fix_simps repo_cwd nbsp_host_simps nbsp_isGitRepo
        nbsp_getCurrentBranch truthy_def p c Let_def)
qed

lemma nbsp_commit_denied:
  "git_commit nbsp_host DEFAULTS commit_fix None empty_world
   = (Inr (err (main_commit_blocked ''main'')),
      \<lparr> procs = [Proc ''git'' [''rev-parse'', ''--is-inside-work-tree''] ''/repo'',
                  Proc ''git'' [''symbolic-ref'', ''--short'', ''HEAD''] ''/repo''],
        files = Map.empty \<rparr>)"
proof -
  have p: "isProtected DEFAULTS ''main''" and a: "\<not> allowMainCommit DEFAULTS"
    by (simp_all add: isProtected_def DEFAULTS_def)
  show ?thesis
    by (simp add: git_commit_def commit_fix_simps repo_cwd nbsp_host_simps nbsp_isGitRepo
        nbsp_getCurrentBranch truthy_def p a Let_def)
qed

lemma nbsp_symbolic_ref:
  "stdout (fst (runGit nbsp_host [''symbolic-ref'', ''--short'', ''HEAD''] ''/repo'' empty_world))
     = nbsp_main @ [CHR 0x0A]"
  by (simp add: runGit_def ALLOWED_SUBCOMMANDS_def execFile_def nbsp_host_simps
      nbsp_respond_def Let_def)

text \<open>
  Claim C9 does not hold of git_commit. The current branch is \<^verbatim>\<open>main\<close> followed by a
  no-break space: that is the name git prints, followed by a line feed.
  \<^verbatim>\<open>getCurrentBranch\<close> trims the output and reads \<^verbatim>\<open>main\<close>. With the branch
  protected and \<^verbatim>\<open>allowMainCommit\<close> false, git_commit is not denied and runs
  \<^verbatim>\<open>git commit\<close>. With the default configuration, in which the branch is not
  protected, git_commit is denied, with a message about \<^verbatim>\<open>main\<close>.
\<close>

theorem main_commit_gate_misread:
  "stdout (fst (runGit nbsp_host [''symbolic-ref'', ''--short'', ''HEAD''] ''/repo'' empty_world))
     = nbsp_main @ [CHR 0x0A]
   \<and> fst (getCurrentBranch nbsp_host ''/repo'' (snd (isGitRepo nbsp_host ''/repo'' empty_world)))
     = Some ''main''
   \<and> nbsp_main \<in> set (protectedBranches nbsp_config) \<and> \<not> allowMainCommit nbsp_config
   \<and> fst (git_commit nbsp_host nbsp_config commit_fix None empty_world) = Inr (text_result [])
   \<and> spawned empty_world (snd (git_commit nbsp_host nbsp_config commit_fix None empty_world))
     = [Proc ''git'' [''rev-parse'', ''--is-inside-work-tree''] ''/repo'',
        Proc ''git'' [''symbolic-ref'', ''--short'', ''HEAD''] ''/repo'',
        Proc ''git'' [''commit'', ''--file'', ''/tmp/openclaw-git-msg-1b4e28ba.txt''] ''/repo'']
   \<and> nbsp_main \<notin> set (protectedBranches DEFAULTS) \<and> \<not> allowMainCommit DEFAULTS
   \<and> fst (git_commit nbsp_host DEFAULTS commit_fix None empty_world)
     = Inr (err (main_commit_blocked ''main''))"
  unfolding nbsp_commit_run nbsp_commit_denied nbsp_symbolic_ref
  by (simp add: spawned_empty nbsp_isGitRepo nbsp_getCurrentBranch nbsp_config_def DEFAULTS_def
      nbsp_main_def)

section \<open>Temporary files\<close>

lemma unlink_quietly_files:
  "\<not> unlink_fails h f \<Longrightarrow> files (unlink_quietly h f w) = (files w)(f := None)"
  by (cases "files w f") (auto simp: unlink_quietly_def)

lemma unlink_quietly_failing: "unlink_fails h f \<Longrightarrow> unlink_quietly h f w = w"
  by (cases "files w f") (auto simp: unlink_quietly_def)

lemma writeFileSync_files:
  "(files (snd (writeFileSync h f m w)))(f := None) = (files w)(f := None)"
  by (simp add: writeFileSync_def split: write_outcome.splits)

lemma commit_try_world:
  "files (snd (commit_try h ps cwd f m w)) = files (snd (writeFileSync h f m w))"
proof (cases "writeFileSync h f m w")
  case (Pair r w1)
  then show ?thesis
    by (cases r) (simp_all add: commit_try_def Let_def split_def runGit_files)
qed

lemma pr_try_world:
  "files (snd (pr_try h ps cwd f m w)) = files (snd (writeFileSync h f m w))"
proof (cases "writeFileSync h f m w")
  case (Pair r w1)
  show ?thesis
  proof (cases r)
    case (Inl e)
    with Pair show ?thesis by (simp add: pr_try_def)
  next
    case (Inr u)
    show ?thesis
    proof (cases "if truthy (pr_base ps) then validateRef (the (pr_base ps)) else None")
      case None
      with Pair Inr show ?thesis
        by (simp add: pr_try_def Let_def split_def execFile_files)
    next
      case (Some v)
      with Pair Inr show ?thesis by (simp add: pr_try_def Let_def)
    qed
  qed
qed

lemma try_finally_world: "snd (try_finally body cleanup w) = cleanup (snd (body w))"
  by (simp add: try_finally_def split_def Let_def)

lemma try_finally_outcome: "fst (try_finally body cleanup w) = fst (body w)"
  by (simp add: try_finally_def split_def Let_def)

lemma commit_try_files:
  "\<not> unlink_fails h f \<Longrightarrow>
   files (snd (try_finally (commit_try h ps cwd f m) (unlink_quietly h f) w))
     = (files w)(f := None)"
  by (simp add: try_finally_world unlink_quietly_files commit_try_world writeFileSync_files)

lemma pr_try_files:
  "\<not> unlink_fails h f \<Longrightarrow>
   files (snd (try_finally (pr_try h ps cwd f m) (unlink_quietly h f) w)) = (files w)(f := None)"
  by (simp add: try_finally_world unlink_quietly_files pr_try_world writeFileSync_files)

lemma stage_and_commit_files:
  "\<not> unlink_fails h (msgFile_of h) \<Longrightarrow>
   files (snd (stage_and_commit h cfg ps cwd w)) = files w
   \<or> files (snd (stage_and_commit h cfg ps cwd w)) = (files w)(msgFile_of h := None)"
  by (auto simp: stage_and_commit_def Let_def split_def commit_try_files runGit_files
      split: option.splits)

lemma git_commit_files:
  "\<not> unlink_fails h (msgFile_of h) \<Longrightarrow>
   files (snd (git_commit h cfg ps ctx w)) = files w
   \<or> files (snd (git_commit h cfg ps ctx w)) = (files w)(msgFile_of h := None)"
  using stage_and_commit_files[of h cfg ps "resolve_cwd h (cp_cwd ps) ctx"
      "snd (getCurrentBranch h (resolve_cwd h (cp_cwd ps) ctx)
             (snd (isGitRepo h (resolve_cwd h (cp_cwd ps) ctx) w)))"]
  by (auto simp: git_commit_def Let_def split_def isGitRepo_files getCurrentBranch_files)

lemma git_pr_files:
  "\<not> unlink_fails h (bodyFile_of h) \<Longrightarrow>
   files (snd (git_pr h cfg ps ctx w)) = files w
   \<or> files (snd (git_pr h cfg ps ctx w)) = (files w)(bodyFile_of h := None)"
  by (simp add: git_pr_def Let_def split_def isGitRepo_files execFile_files pr_try_files
      split: option.splits)

lemma fresh_restore: "m f = None \<Longrightarrow> m(f := None) = m"
  by (rule ext) simp

lemma stubborn_commit_run:
  "git_commit stubborn_host bot_config commit_fix None empty_world
   = (Inr (text_result []),
      \<lparr> procs = [Proc ''git'' [''rev-parse'', ''--is-inside-work-tree''] ''/repo'',
                  Proc ''git'' [''symbolic-ref'', ''--short'', ''HEAD''] ''/repo'',
                  Proc ''git'' [''commit'', ''--file'', ''/tmp/openclaw-git-msg-1b4e28ba.txt'']
                    ''/repo''],
        files = [''/tmp/openclaw-git-msg-1b4e28ba.txt'' \<mapsto> ''[bot] fix bug''] \<rparr>)"
proof -
  have c: "stage_and_commit stubborn_host bot_config commit_fix ''/repo''
      \<lparr> procs = [Proc ''git'' [''rev-parse'', ''--is-inside-work-tree''] ''/repo'',
                  Proc ''git'' [''symbolic-ref'', ''--short'', ''HEAD''] ''/repo''],
        files = Map.empty \<rparr>
   = (Inr (text_result []),
      \<lparr> procs = [Proc ''git'' [''rev-parse'', ''--is-inside-work-tree''] ''/repo'',
                  Proc ''git'' [''symbolic-ref'', ''--short'', ''HEAD''] ''/repo'',
                  Proc ''git'' [''commit'', ''--file'', ''/tmp/openclaw-git-msg-1b4e28ba.txt'']
                    ''/repo''],
        files = [''/tmp/openclaw-git-msg-1b4e28ba.txt'' \<mapsto> ''[bot] fix bug''] \<rparr>)"
    by (simp add: stage_and_commit_def commit_fix_simps bot_config_def msgFile_of_def
        join_path_def try_finally_def commit_try_def writeFileSync_def always_written_def
        unlink_quietly_def always_failing_def runGit_def ALLOWED_SUBCOMMANDS_def execFile_def
        stubborn_host_simps example_respond_def exit_code_of_def Let_def)
  have a: "allowMainCommit bot_config" by (simp add: bot_config_def)
  show ?thesis
    by (simp add: git_commit_def commit_fix_simps repo_cwd stubborn_host_simps
        on_main_isGitRepo on_main_getCurrentBranch truthy_def a c Let_def)
qed

lemma stubborn_msgFile: "msgFile_of stubborn_host = ''/tmp/openclaw-git-msg-1b4e28ba.txt''"
  by (simp add: msgFile_of_def join_path_def stubborn_host_simps)

text \<open>
  Claim C6, as stated, fails when the unlink fails. On a host where unlinking throws (the
  file or its directory cannot be changed), git_commit writes the message file, runs
  \<^verbatim>\<open>git commit\<close>, and returns its result; the \<^verbatim>\<open>finally\<close> block tries to
  unlink the file and swallows the exception, so the file, which did not exist before the
  call, still holds the message when control returns.
\<close>

theorem temporary_file_residual_counterexample:
  "unlink_fails stubborn_host (msgFile_of stubborn_host)
   \<and> files empty_world (msgFile_of stubborn_host) = None
   \<and> fst (git_commit stubborn_host bot_config commit_fix None empty_world)
      = Inr (text_result [])
   \<and> files (snd (git_commit stubborn_host bot_config commit_fix None empty_world))
        (msgFile_of stubborn_host)
      = Some ''[bot] fix bug''"
  unfolding stubborn_commit_run stubborn_msgFile
  by (simp add: stubborn_host_simps always_failing_def empty_world_simps)

text \<open>
  Claim C6, amended. Provided the unlink of the temporary file does not fail: whatever way
  the \<^verbatim>\<open>try\<close> block of git_commit or git_pr is left (the write throws, a later field
  is rejected, the child process fails or succeeds), the \<^verbatim>\<open>finally\<close> block leaves
  no file at the temporary path; and a call of git_commit or git_pr whose temporary path is
  fresh returns with the files exactly as they were.
\<close>

theorem temporary_file_removed:
  "(\<not> unlink_fails h f \<longrightarrow>
      files (snd (try_finally (commit_try h cps cwd f message) (unlink_quietly h f) w)) f = None
      \<and> files (snd (try_finally (pr_try h pps cwd f body) (unlink_quietly h f) w)) f = None)
   \<and> (\<not> unlink_fails h (msgFile_of h) \<and> files w (msgFile_of h) = None \<longrightarrow>
        files (snd (git_commit h cfg cps ctx w)) = files w)
   \<and> (\<not> unlink_fails h (bodyFile_of h) \<and> files w (bodyFile_of h) = None \<longrightarrow>
        files (snd (git_pr h cfg pps ctx w)) = files w)"
  using git_commit_files[of h cfg cps ctx w] git_pr_files[of h cfg pps ctx w]
  by (auto simp: commit_try_files pr_try_files fresh_restore)

lemma example_pr_run:
  "fst (git_pr example_host bot_config pr_example None empty_world)
     = Inr (err ''ref cannot start with a dash'')"
  by (simp add: git_pr_def pr_example_simps example_cwd example_isGitRepo execFile_def
      example_host_simps example_respond_def startsWith_def try_finally_def pr_try_def
      writeFileSync_def always_written_def truthy_def validateRef_def Let_def)

lemma example_commit_try:
  "files (snd (commit_try example_host commit_fix ''/repo'' (msgFile_of example_host)
                 ''[bot] fix bug'' empty_world)) (msgFile_of example_host)
     = Some ''[bot] fix bug''"
  by (simp add: commit_try_def writeFileSync_def always_written_def example_host_simps
      runGit_files Let_def split_def)

theorem temporary_file_removed_witness:
  "\<not> unlink_fails example_host (msgFile_of example_host)
   \<and> files empty_world (msgFile_of example_host) = None
   \<and> files (snd (git_commit example_host bot_config commit_fix None empty_world))
      = files empty_world
   \<and> \<not> unlink_fails example_host (bodyFile_of example_host)
   \<and> files empty_world (bodyFile_of example_host) = None
   \<and> fst (git_pr example_host bot_config pr_example None empty_world)
      = Inr (err ''ref cannot start with a dash'')
   \<and> files (snd (git_pr example_host bot_config pr_example None empty_world))
      = files empty_world
   \<and> files (snd (commit_try example_host commit_fix ''/repo'' (msgFile_of example_host)
                   ''[bot] fix bug'' empty_world)) (msgFile_of example_host)
      = Some ''[bot] fix bug''
   \<and> files (snd (try_finally
                    (commit_try example_host commit_fix ''/repo'' (msgFile_of example_host)
                       ''[bot] fix bug'')
                    (unlink_quietly example_host (msgFile_of example_host)) empty_world))
        (msgFile_of example_host)
      = None"
  using temporary_file_removed [where f = "msgFile_of example_host" and h = example_host
      and cps = commit_fix and cwd = "''/repo''" and message = "''[bot] fix bug''"
      and w = empty_world and pps = pr_example and body = "[]" and cfg = bot_config
      and ctx = None]
    example_pr_run example_commit_try
  by (simp add: empty_world_simps example_host_simps never_failing_def)

section \<open>Stash references\<close>

lemma number_to_string_small:
  assumes "0 \<le> i" and "i < 2 ^ 53"
  shows "number_to_string i = show_nat (nat i)"
proof -
  from assms have "nat i < 2 ^ 53" by (simp add: nat_less_iff)
  with assms(1) show ?thesis by (simp add: number_to_string_def number_to_string_nat_def)
qed

lemma stash_idx_small:
  assumes "(case sp_index ps of None \<Rightarrow> 0 | Some i \<Rightarrow> i) < 2 ^ 53"
  shows "number_to_string (stash_idx ps)
     = show_nat (nat (max 0 \<lfloor>case sp_index ps of None \<Rightarrow> 0 | Some i \<Rightarrow> i\<rfloor>))"
proof -
  let ?r = "case sp_index ps of None \<Rightarrow> 0 | Some i \<Rightarrow> i"
  from assms have "\<lfloor>?r\<rfloor> < 2 ^ 53" by (simp add: floor_less_iff)
  then have "max 0 \<lfloor>?r\<rfloor> < 2 ^ 53" by simp
  moreover have "0 \<le> max 0 \<lfloor>?r\<rfloor>" by simp
  ultimately have "number_to_string (max 0 \<lfloor>?r\<rfloor>) = show_nat (nat (max 0 \<lfloor>?r\<rfloor>))"
    by (rule number_to_string_small[rotated])
  then show ?thesis by (simp add: stash_idx_def Let_def)
qed

lemma git_stash_ref:
  assumes "fst (isGitRepo h (resolve_cwd h (sp_cwd ps) ctx) w)"
    and "sp_action ps = Some a" and "a \<in> set [''pop'', ''drop'', ''show'']"
  shows "spawned w (snd (git_stash h cfg ps ctx w))
     = [Proc ''git'' [''rev-parse'', ''--is-inside-work-tree''] (resolve_cwd h (sp_cwd ps) ctx),
        Proc ''git''
          ([''stash'', a] @ (if a = ''show'' then [''-p''] else [])
           @ [''stash'' @ [CHR 0x40, CHR 0x7B] @ number_to_string (stash_idx ps) @ [CHR 0x7D]])
          (resolve_cwd h (sp_cwd ps) ctx)]"
proof -
  let ?cwd = "resolve_cwd h (sp_cwd ps) ctx"
  let ?w1 = "snd (isGitRepo h ?cwd w)"
  let ?args = "[''stash'', a] @ (if a = ''show'' then [''-p''] else []) @ [stash_ref (stash_idx ps)]"
  have "snd (git_stash h cfg ps ctx w) = snd (runGit h ?args ?cwd ?w1)"
    using assms by (auto simp: git_stash_def Let_def split_def)
  also have "\<dots> = ?w1\<lparr>procs := procs ?w1 @ [Proc ''git'' ?args ?cwd]\<rparr>"
    by (rule runGit_allowed) (simp_all add: ALLOWED_SUBCOMMANDS_def)
  finally have "procs (snd (git_stash h cfg ps ctx w))
      = procs w @ [Proc ''git'' [''rev-parse'', ''--is-inside-work-tree''] ?cwd,
                   Proc ''git'' ?args ?cwd]"
    by (simp add: isGitRepo_procs)
  then have "spawned w (snd (git_stash h cfg ps ctx w))
      = [Proc ''git'' [''rev-parse'', ''--is-inside-work-tree''] ?cwd, Proc ''git'' ?args ?cwd]"
    by (rule spawned_append)
  then show ?thesis by (simp add: stash_ref_def)
qed

lemma show_nat_sextillion:
  "show_nat 1000000000000000000000 = ''1000000000000000000000''"
  by (simp add: show_nat.simps digit_char_def)

lemma to_double_sextillion: "to_double 1000000000000000000000 = 1000000000000000000000"
  by (simp add: to_double_def bit_length.simps Let_def)

lemma candidates_sextillion:
  "candidates 1000000000000000000000 (Suc 0)
     = [1000000000000000000000, 2000000000000000000000]"
  by (simp add: candidates_def show_nat_sextillion Let_def)

lemma shortest_decimal_sextillion:
  "shortest_decimal 1000000000000000000000 = 1000000000000000000000"
  unfolding shortest_decimal_def
  using shortest_from.simps(2)[of 16 "Suc 0" 1000000000000000000000]
  by (simp add: candidates_sextillion to_double_sextillion)

lemma length_sextillion: "length (show_nat 1000000000000000000000) = 22"
  by (simp add: show_nat_sextillion)

lemma strip_zeros_sextillion: "strip_zeros (show_nat 1000000000000000000000) = ''1''"
  by (simp add: show_nat_sextillion strip_zeros_def)

lemma show_nat_21: "show_nat 21 = ''21''"
  by (simp add: show_nat.simps digit_char_def)

lemma number_to_string_sextillion: "number_to_string 1000000000000000000000 = ''1e+21''"
  by (simp add: number_to_string_def number_to_string_nat_def shortest_decimal_sextillion
      length_sextillion strip_zeros_sextillion show_nat_21 Let_def)

lemma stash_idx_huge: "stash_idx stash_pop_huge = 1000000000000000000000"
  by (simp add: stash_idx_def stash_pop_huge_simps Let_def)

text \<open>
  Claim C10, as stated, fails for large indices. For the index \<^verbatim>\<open>1e21\<close>, whose floor is
  the natural number \<open>10\<^sup>2\<^sup>1\<close>, the reference passed to git is made of
  \<^verbatim>\<open>stash\<close>, an at sign and \<^verbatim>\<open>1e+21\<close> in braces: the template literal prints the
  number in exponent notation, which is not the natural number written in digits and not a
  stash reference that git accepts.
\<close>

theorem stash_index_exponent_counterexample:
  "sp_action stash_pop_huge = Some ''pop''
   \<and> sp_index stash_pop_huge = Some 1000000000000000000000
   \<and> max 0 \<lfloor>1000000000000000000000 :: real\<rfloor> = 1000000000000000000000
   \<and> show_nat 1000000000000000000000 = ''1000000000000000000000''
   \<and> spawned empty_world (snd (git_stash example_host DEFAULTS stash_pop_huge None empty_world))
      = [Proc ''git'' [''rev-parse'', ''--is-inside-work-tree''] ''/repo'',
         Proc ''git'' [''stash'', ''pop'', ''stash'' @ [CHR 0x40, CHR 0x7B] @ ''1e+21'' @ [CHR 0x7D]]
           ''/repo'']"
proof -
  have r: "fst (isGitRepo example_host (resolve_cwd example_host (sp_cwd stash_pop_huge) None)
                  empty_world)"
    by (simp add: stash_pop_huge_simps example_cwd example_isGitRepo)
  have m: "''pop'' \<in> set [''pop'', ''drop'', ''show'']" by simp
  show ?thesis
    using git_stash_ref[OF r stash_pop_huge_simps(2) m, of DEFAULTS]
    by (simp add: stash_pop_huge_simps example_cwd stash_idx_huge number_to_string_sextillion
        show_nat_sextillion)
qed

text \<open>
  Claim C10, amended. In a repository, for an index below \<open>2\<^sup>5\<^sup>3\<close> (where JavaScript
  prints an integer digit by digit), git_stash with action pop, drop or show runs
  \<^verbatim>\<open>git stash\<close> with the reference made of \<^verbatim>\<open>stash\<close>, an at sign and
  the number \<open>n\<close> in braces, where \<open>n\<close> is the greater of 0 and the floor of the index
  (0 when the index is absent), printed in decimal digits: a negative or fractional index is
  normalised, not rejected.
\<close>

theorem stash_index_normalised:
  assumes "fst (isGitRepo h (resolve_cwd h (sp_cwd ps) ctx) w)"
    and "sp_action ps = Some a" and "a \<in> set [''pop'', ''drop'', ''show'']"
    and "(case sp_index ps of None \<Rightarrow> 0 | Some i \<Rightarrow> i) < 2 ^ 53"
  shows "spawned w (snd (git_stash h cfg ps ctx w))
     = [Proc ''git'' [''rev-parse'', ''--is-inside-work-tree''] (resolve_cwd h (sp_cwd ps) ctx),
        Proc ''git''
          ([''stash'', a] @ (if a = ''show'' then [''-p''] else [])
           @ [''stash'' @ [CHR 0x40, CHR 0x7B]
              @ show_nat (nat (max 0 \<lfloor>case sp_index ps of None \<Rightarrow> 0 | Some i \<Rightarrow> i\<rfloor>))
              @ [CHR 0x7D]])
          (resolve_cwd h (sp_cwd ps) ctx)]
     \<and> set (show_nat (nat (max 0 \<lfloor>case sp_index ps of None \<Rightarrow> 0 | Some i \<Rightarrow> i\<rfloor>)))
         \<subseteq> set ''0123456789''
     \<and> show_nat (nat (max 0 \<lfloor>case sp_index ps of None \<Rightarrow> 0 | Some i \<Rightarrow> i\<rfloor>)) \<noteq> []"
  using git_stash_ref[OF assms(1-3), of cfg] stash_idx_small[OF assms(4)]
    show_nat_digits show_nat_ne
  by simp

theorem stash_index_normalised_witness:
  "spawned empty_world (snd (git_stash example_host DEFAULTS stash_pop_negative None empty_world))
     = [Proc ''git'' [''rev-parse'', ''--is-inside-work-tree''] ''/repo'',
        Proc ''git'' [''stash'', ''pop'', ''stash'' @ [CHR 0x40, CHR 0x7B] @ ''0'' @ [CHR 0x7D]]
          ''/repo'']
   \<and> spawned empty_world
        (snd (git_stash example_host DEFAULTS stash_show_fraction None empty_world))
     = [Proc ''git'' [''rev-parse'', ''--is-inside-work-tree''] ''/repo'',
        Proc ''git'' [''stash'', ''show'', ''-p'',
                      ''stash'' @ [CHR 0x40, CHR 0x7B] @ ''3'' @ [CHR 0x7D]] ''/repo'']"
proof -
  have r1: "fst (isGitRepo example_host (resolve_cwd example_host (sp_cwd stash_pop_negative) None)
                   empty_world)"
    by (simp add: stash_pop_negative_simps example_cwd example_isGitRepo)
  have r2: "fst (isGitRepo example_host (resolve_cwd example_host (sp_cwd stash_show_fraction) None)
                   empty_world)"
    by (simp add: stash_show_fraction_simps example_cwd example_isGitRepo)
  have m1: "''pop'' \<in> set [''pop'', ''drop'', ''show'']" by simp
  have m2: "''show'' \<in> set [''pop'', ''drop'', ''show'']" by simp
  have n0: "show_nat 0 = ''0''" and n3: "show_nat 3 = ''3''"
    by (simp_all add: show_nat.simps digit_char_def)
  have b1: "(case sp_index stash_pop_negative of None \<Rightarrow> 0 | Some i \<Rightarrow> i) < 2 ^ 53"
    by (simp add: stash_pop_negative_simps)
  have b2: "(case sp_index stash_show_fraction of None \<Rightarrow> 0 | Some i \<Rightarrow> i) < 2 ^ 53"
    by (simp add: stash_show_fraction_simps)
  show ?thesis
    using stash_index_normalised[OF r1 stash_pop_negative_simps(2) m1 b1, of DEFAULTS]
      stash_index_normalised[OF r2 stash_show_fraction_simps(2) m2 b2, of DEFAULTS]
    by (simp add: stash_pop_negative_simps stash_show_fraction_simps example_cwd n0 n3)
qed

end
